theory Spec2Isabelle
  imports Complex_Main
begin

section \<open>Python values used by \<^verbatim>\<open>plate.py\<close>\<close>

text \<open>
  A Python \<^verbatim>\<open>str\<close> is a sequence of Unicode code points; it is modelled as the list
  of its code points, so that \<^verbatim>\<open>chr\<close> past 255 stays expressible. Lengths in
  millimetres (Python \<^verbatim>\<open>int\<close> or \<^verbatim>\<open>float\<close> arguments and the decimal literals of the
  source) are modelled as exact rationals: \<^verbatim>\<open>0.55\<close> is \<open>11 / 20\<close>, and the binary
  rounding of IEEE doubles is not part of the model.
\<close>

type_synonym ustring = "nat list"

definition ustr :: "string \<Rightarrow> ustring" where
  "ustr s = map of_char s"

datatype error = IndexError | ValueError | TypeError | OSError

text \<open>\<^verbatim>\<open>range(n)\<close> for an integer \<open>n\<close>: empty when \<open>n \<le> 0\<close>.\<close>

definition range_py :: "int \<Rightarrow> nat list" where
  "range_py n = [0..<nat n]"

text \<open>\<^verbatim>\<open>xs[i]\<close> for an index \<open>i \<ge> 0\<close>: raises \<^verbatim>\<open>IndexError\<close> out of range.\<close>

definition getitem :: "'a list \<Rightarrow> nat \<Rightarrow> error + 'a" where
  "getitem xs i = (if i < length xs then Inr (xs ! i) else Inl IndexError)"

text \<open>\<^verbatim>\<open>chr(i)\<close> for \<open>i \<ge> 0\<close>: raises \<^verbatim>\<open>ValueError\<close> when \<open>i\<close> is not below \<^verbatim>\<open>0x110000\<close>.\<close>

definition chr :: "nat \<Rightarrow> error + ustring" where
  "chr i = (if i < 1114112 then Inr [i] else Inl ValueError)"

text \<open>\<^verbatim>\<open>str(n)\<close> for an integer \<open>n \<ge> 0\<close>: its decimal digits.\<close>

fun str :: "nat \<Rightarrow> ustring" where
  "str n = (if n < 10 then [48 + n] else str (n div 10) @ [48 + n mod 10])"

declare str.simps [simp del]

section \<open>The store of list objects\<close>

text \<open>
  The fill matrix is a Python list of lists of strings. Lists are mutable objects reached
  through references, so they live in a store: \<open>rows_of\<close> holds the row objects (lists of
  strings), \<open>mats_of\<close> the matrix objects (lists of references to rows), and \<open>nxt\<close> is the
  first address not yet allocated. Strings are immutable and are kept as values.
\<close>

type_synonym addr = nat

record heap =
  rows_of :: "addr \<Rightarrow> ustring list"
  mats_of :: "addr \<Rightarrow> addr list"
  nxt :: addr

definition new_row :: "heap \<Rightarrow> ustring list \<Rightarrow> addr \<times> heap" where
  "new_row h cs = (nxt h, h\<lparr>rows_of := (rows_of h)(nxt h := cs), nxt := Suc (nxt h)\<rparr>)"

definition new_mat :: "heap \<Rightarrow> addr list \<Rightarrow> addr \<times> heap" where
  "new_mat h rs = (nxt h, h\<lparr>mats_of := (mats_of h)(nxt h := rs), nxt := Suc (nxt h)\<rparr>)"

text \<open>The contents of a matrix object, row by row.\<close>

definition matrix_view :: "heap \<Rightarrow> addr \<Rightarrow> ustring list list" where
  "matrix_view h m = map (rows_of h) (mats_of h m)"

text \<open>
  \<^verbatim>\<open>[[well_fill for i in range(n_cols)] for j in range(n_rows)]\<close>: every pass of the
  outer comprehension builds a new row object.
\<close>

fun broadcast_rows :: "heap \<Rightarrow> ustring \<Rightarrow> int \<Rightarrow> nat list \<Rightarrow> addr list \<times> heap" where
  "broadcast_rows h well_fill n_cols [] = ([], h)"
| "broadcast_rows h well_fill n_cols (j # js) =
     (let (r, h1) = new_row h (map (\<lambda>i. well_fill) (range_py n_cols));
          (rs, h2) = broadcast_rows h1 well_fill n_cols js
      in (r # rs, h2))"

definition broadcast :: "heap \<Rightarrow> ustring \<Rightarrow> int \<Rightarrow> int \<Rightarrow> addr \<times> heap" where
  "broadcast h well_fill n_rows n_cols =
     (let (rs, h1) = broadcast_rows h well_fill n_cols (range_py n_rows)
      in new_mat h1 rs)"

text \<open>
  \<^verbatim>\<open>copy.deepcopy\<close> on a list of lists of strings: every row object is copied into a
  new object, once (the memo keeps the copy of a row that occurs again), the strings are
  shared, and the copies are collected in a new matrix object.
\<close>

fun deepcopy_rows :: "heap \<Rightarrow> (addr \<rightharpoonup> addr) \<Rightarrow> addr list \<Rightarrow> addr list \<times> heap" where
  "deepcopy_rows h memo [] = ([], h)"
| "deepcopy_rows h memo (r # rs) =
     (case memo r of
        Some r' \<Rightarrow> (let (rs', h1) = deepcopy_rows h memo rs in (r' # rs', h1))
      | None \<Rightarrow>
          (let (r', h1) = new_row h (rows_of h r);
               (rs', h2) = deepcopy_rows h1 (memo(r \<mapsto> r')) rs
           in (r' # rs', h2)))"

definition deepcopy :: "heap \<Rightarrow> addr \<Rightarrow> addr \<times> heap" where
  "deepcopy h m =
     (let (rs', h1) = deepcopy_rows h Map.empty (mats_of h m)
      in new_mat h1 rs')"

section \<open>The drawing backend\<close>

text \<open>
  The drawing document of \<^verbatim>\<open>svgwrite\<close> is modelled as what the plate hands to it: the
  file name, the size, the view box and the primitives in the order of the \<^verbatim>\<open>add\<close>
  calls. The arguments of the primitives are, in this order:
  \<^item> \<open>Rect insert size rx stroke_width stroke fill\<close>;
  \<^item> \<open>Circle center r stroke_width stroke fill\<close>;
  \<^item> \<open>Text text insert text_anchor font_size alignment_baseline font_family\<close>.

  \<open>Dim x u\<close> stands for the string \<^verbatim>\<open>str(x) + u\<close> of a number and a unit.

  The library checks the attributes of a primitive when the primitive is made, and
  raises \<^verbatim>\<open>TypeError\<close> for a value that it does not accept. It accepts every number and
  the constants of the source (\<^verbatim>\<open>'black'\<close>, \<^verbatim>\<open>'white'\<close>, \<^verbatim>\<open>'middle'\<close>, \<^verbatim>\<open>'Futura'\<close>). The
  fill of a well comes from the caller: the library is not part of the program, so its
  check of a fill is the parameter \<open>is_paint\<close> of the functions below.
\<close>

datatype primitive =
    Rect "rat \<times> rat" "rat \<times> rat" rat rat ustring ustring
  | Circle "rat \<times> rat" rat rat ustring ustring
  | Text ustring "rat \<times> rat" ustring rat ustring ustring

datatype dim = Dim rat ustring

record drawing =
  filename :: ustring
  size_dim :: "dim \<times> dim"
  viewBox :: "(rat \<times> rat \<times> rat \<times> rat) option"
  elements :: "primitive list"

definition Drawing :: "ustring \<Rightarrow> dim \<times> dim \<Rightarrow> drawing" where
  "Drawing fname sz = \<lparr>filename = fname, size_dim = sz, viewBox = None, elements = []\<rparr>"

text \<open>\<^verbatim>\<open>viewbox(minx=0, miny=0, width, height)\<close>.\<close>

definition viewbox :: "drawing \<Rightarrow> rat \<Rightarrow> rat \<Rightarrow> drawing" where
  "viewbox d w ht = d\<lparr>viewBox := Some (0, 0, w, ht)\<rparr>"

definition add :: "drawing \<Rightarrow> primitive \<Rightarrow> drawing" where
  "add d e = d\<lparr>elements := elements d @ [e]\<rparr>"

section \<open>\<^verbatim>\<open>PaperPlate\<close>\<close>

datatype well_fill = Colour ustring | Matrix addr

record init_args =
  n_rows :: int
  n_cols :: int
  plate_length :: rat
  plate_width :: rat
  barrier_thickness :: rat
  well_diameter :: rat
  well_separation :: rat
  margin :: rat
  left_padding :: rat
  top_padding :: rat
  edge_corner_radius :: rat
  edge_thickness :: rat
  edges_distance :: rat
  label_font_size :: rat
  well_fill :: well_fill

text \<open>The attributes \<^verbatim>\<open>self._n_rows\<close>, ... of the object.\<close>

record plate =
  self_n_rows :: int
  self_n_cols :: int
  self_plate_length :: rat
  self_plate_width :: rat
  self_barrier_thickness :: rat
  self_well_diameter :: rat
  self_well_separation :: rat
  self_margin :: rat
  self_edge_corner_radius :: rat
  self_edge_thickness :: rat
  self_edges_distance :: rat
  self_label_font_size :: rat
  self_fill_matrix :: addr
  self_top_y :: rat
  self_left_x :: rat
  self_svg :: drawing

definition draw_edges :: "plate \<Rightarrow> plate" where
  "draw_edges self =
     (let fill = ustr ''white'';
          stroke = ustr ''black'';
          svg1 = add (self_svg self)
                   (Rect (self_margin self, self_margin self)
                         (self_plate_length self, self_plate_width self)
                         (self_edge_corner_radius self)
                         (self_edge_thickness self) stroke fill);
          insert_coord = self_margin self + self_edges_distance self;
          inner_size = (self_plate_length self - 2 * self_edges_distance self,
                        self_plate_width self - 2 * self_edges_distance self);
          svg2 = add svg1
                   (Rect (insert_coord, insert_coord) inner_size
                         (self_edge_corner_radius self - self_edges_distance self)
                         (self_edge_thickness self) stroke fill)
      in self\<lparr>self_svg := svg2\<rparr>)"

text \<open>\<^verbatim>\<open>self._fill_matrix[row][col]\<close>.\<close>

definition fill_at :: "heap \<Rightarrow> addr \<Rightarrow> nat \<Rightarrow> nat \<Rightarrow> error + ustring" where
  "fill_at h m row col =
     (case getitem (mats_of h m) row of
        Inl e \<Rightarrow> Inl e
      | Inr r \<Rightarrow> getitem (rows_of h r) col)"

text \<open>
  The inner and the outer loop of \<^verbatim>\<open>_draw_wells\<close>. The arguments of \<^verbatim>\<open>circle\<close> are
  evaluated first, the subscript of the fill matrix among them; then the library makes
  the circle, or rejects its fill.
\<close>

fun draw_wells_cols ::
  "(ustring \<Rightarrow> bool) \<Rightarrow> heap \<Rightarrow> plate \<Rightarrow> nat \<Rightarrow> nat list \<Rightarrow> error + plate" where
  "draw_wells_cols is_paint h self row [] = Inr self"
| "draw_wells_cols is_paint h self row (col # cols) =
     (case fill_at h (self_fill_matrix self) row col of
        Inl e \<Rightarrow> Inl e
      | Inr fill \<Rightarrow>
          if \<not> is_paint fill then Inl TypeError
          else
            draw_wells_cols is_paint h
              (self\<lparr>self_svg := add (self_svg self)
                 (Circle (self_left_x self + of_nat col * self_well_separation self,
                          self_top_y self + of_nat row * self_well_separation self)
                         (self_well_diameter self / 2)
                         (self_barrier_thickness self) (ustr ''black'') fill)\<rparr>)
              row cols)"

fun draw_wells_rows ::
  "(ustring \<Rightarrow> bool) \<Rightarrow> heap \<Rightarrow> plate \<Rightarrow> nat list \<Rightarrow> error + plate" where
  "draw_wells_rows is_paint h self [] = Inr self"
| "draw_wells_rows is_paint h self (row # rows) =
     (case draw_wells_cols is_paint h self row (range_py (self_n_cols self)) of
        Inl e \<Rightarrow> Inl e
      | Inr self' \<Rightarrow> draw_wells_rows is_paint h self' rows)"

definition draw_wells :: "(ustring \<Rightarrow> bool) \<Rightarrow> heap \<Rightarrow> plate \<Rightarrow> error + plate" where
  "draw_wells is_paint h self =
     draw_wells_rows is_paint h self (range_py (self_n_rows self))"

text \<open>The two loops of \<^verbatim>\<open>_draw_labels\<close>.\<close>

fun draw_labels_rows :: "plate \<Rightarrow> nat list \<Rightarrow> error + plate" where
  "draw_labels_rows self [] = Inr self"
| "draw_labels_rows self (row # rows) =
     (let font_size = self_label_font_size self in
      case chr (row + 65) of
        Inl e \<Rightarrow> Inl e
      | Inr text \<Rightarrow>
          draw_labels_rows
            (self\<lparr>self_svg := add (self_svg self)
               (Text text
                     (- (3 / 4) * self_well_separation self + self_left_x self,
                      of_nat row * self_well_separation self + self_top_y self + font_size / 8)
                     (ustr ''middle'') font_size (ustr ''middle'') (ustr ''Futura''))\<rparr>)
            rows)"

fun draw_labels_cols :: "plate \<Rightarrow> nat list \<Rightarrow> plate" where
  "draw_labels_cols self [] = self"
| "draw_labels_cols self (col # cols) =
     (let font_size = self_label_font_size self in
      draw_labels_cols
        (self\<lparr>self_svg := add (self_svg self)
           (Text (str (col + 1))
                 (of_nat col * self_well_separation self + self_left_x self,
                  - (11 / 20) * self_well_separation self + self_top_y self - font_size / 8)
                 (ustr ''middle'') font_size (ustr ''middle'') (ustr ''Futura''))\<rparr>)
        cols)"

definition draw_labels :: "plate \<Rightarrow> error + plate" where
  "draw_labels self =
     (case draw_labels_rows self (range_py (self_n_rows self)) of
        Inl e \<Rightarrow> Inl e
      | Inr self' \<Rightarrow> Inr (draw_labels_cols self' (range_py (self_n_cols self'))))"

text \<open>
  \<^verbatim>\<open>PaperPlate.__init__\<close>. An exception leaves the constructor without an object, so
  the result is either the error or the object together with the store.
\<close>

definition PaperPlate_init ::
  "(ustring \<Rightarrow> bool) \<Rightarrow> heap \<Rightarrow> init_args \<Rightarrow> error + plate \<times> heap" where
  "PaperPlate_init is_paint h a =
     (let (fm, h1) = (case well_fill a of
                        Colour c \<Rightarrow> broadcast h c (n_rows a) (n_cols a)
                      | Matrix m \<Rightarrow> deepcopy h m);
          viewport_size = (plate_length a + 2 * margin a, plate_width a + 2 * margin a);
          viewport_dim = (Dim (fst viewport_size) (ustr ''mm''),
                          Dim (snd viewport_size) (ustr ''mm''));
          svg0 = Drawing (ustr ''paper-plate.svg'') viewport_dim;
          svg1 = viewbox svg0 (fst viewport_size) (snd viewport_size);
          self = \<lparr>self_n_rows = n_rows a,
                  self_n_cols = n_cols a,
                  self_plate_length = plate_length a,
                  self_plate_width = plate_width a,
                  self_barrier_thickness = barrier_thickness a,
                  self_well_diameter = well_diameter a,
                  self_well_separation = well_separation a,
                  self_margin = margin a,
                  self_edge_corner_radius = edge_corner_radius a,
                  self_edge_thickness = edge_thickness a,
                  self_edges_distance = edges_distance a,
                  self_label_font_size = label_font_size a,
                  self_fill_matrix = fm,
                  self_top_y = margin a + top_padding a,
                  self_left_x = margin a + left_padding a,
                  self_svg = svg1\<rparr>
      in case draw_wells is_paint h1 (draw_edges self) of
           Inl e \<Rightarrow> Inl e
         | Inr self1 \<Rightarrow>
             (case draw_labels self1 of
                Inl e \<Rightarrow> Inl e
              | Inr self2 \<Rightarrow> Inr (self2, h1)))"

section \<open>Export\<close>

text \<open>
  \<^verbatim>\<open>to_pdf_inkscape\<close> acts on the world outside the program through functions of
  \<^verbatim>\<open>os.path\<close>, \<^verbatim>\<open>os\<close>, \<^verbatim>\<open>shutil\<close> and the drawing library. They are parameters, and each
  of them either raises an error or returns its value: \<open>system\<close> gives, for a command,
  the error that \<^verbatim>\<open>os.system\<close> raises or the exit status that it returns. \<open>and_then\<close>
  runs the rest of the method when a call has returned. The result of the method is the
  list of the actions carried out.
\<close>

datatype action = Makedirs ustring | Saveas drawing ustring | System ustring

record os_env =
  abspath :: "ustring \<Rightarrow> error + ustring"
  dirname :: "ustring \<Rightarrow> error + ustring"
  basename :: "ustring \<Rightarrow> error + ustring"
  splitext :: "ustring \<Rightarrow> error + ustring \<times> ustring"
  path_join :: "ustring \<Rightarrow> ustring \<Rightarrow> error + ustring"
  makedirs :: "ustring \<Rightarrow> error + unit"
  saveas :: "drawing \<Rightarrow> ustring \<Rightarrow> error + unit"
  which :: "ustring \<Rightarrow> error + ustring option"
  system :: "ustring \<Rightarrow> error + int"

definition and_then :: "error + 'a \<Rightarrow> ('a \<Rightarrow> error + 'b) \<Rightarrow> error + 'b" where
  "and_then r f = (case r of Inl e \<Rightarrow> Inl e | Inr x \<Rightarrow> f x)"

definition to_pdf_inkscape :: "os_env \<Rightarrow> plate \<Rightarrow> ustring \<Rightarrow> error + action list" where
  "to_pdf_inkscape env self pdf_file_path =
     and_then (abspath env pdf_file_path) (\<lambda>abs_path.
     and_then (dirname env abs_path) (\<lambda>file_dir.
     and_then (makedirs env file_dir) (\<lambda>made.
     and_then (basename env pdf_file_path) (\<lambda>base.
     and_then (splitext env base) (\<lambda>split.
     let file_name = fst split in
     and_then (path_join env file_dir (file_name @ ustr ''.svg'')) (\<lambda>svg_path.
     and_then (saveas env (self_svg self) svg_path) (\<lambda>saved.
     and_then (which env (ustr ''inkscape'')) (\<lambda>found.
     let inkscape_path =
           (if found = None
            then ustr ''/Applications/Inkscape.app/Contents/Resources/bin/inkscape''
            else ustr ''inkscape'') in
     and_then (abspath env pdf_file_path) (\<lambda>pdf_path.
     let command = inkscape_path @ ustr '' -f '' @ svg_path @ ustr '' -A '' @ pdf_path in
     and_then (system env command) (\<lambda>status.
     Inr [Makedirs file_dir, Saveas (self_svg self) svg_path, System command]))))))))))"

section \<open>Notions used to state the properties\<close>

text \<open>The primitives of a drawing by kind, in the order of the document.\<close>

fun is_rect :: "primitive \<Rightarrow> bool" where
  "is_rect (Rect ins sz rx sw st fl) = True"
| "is_rect _ = False"

fun is_circle :: "primitive \<Rightarrow> bool" where
  "is_circle (Circle ce r sw st fl) = True"
| "is_circle _ = False"

fun is_text :: "primitive \<Rightarrow> bool" where
  "is_text (Text t ins an fs al ff) = True"
| "is_text _ = False"

definition rects :: "drawing \<Rightarrow> primitive list" where
  "rects d = filter is_rect (elements d)"

definition circles :: "drawing \<Rightarrow> primitive list" where
  "circles d = filter is_circle (elements d)"

definition texts :: "drawing \<Rightarrow> primitive list" where
  "texts d = filter is_text (elements d)"

text \<open>
  \<open>cell_ok\<close> says that the matrix has an entry at a position, \<open>cell\<close> is that entry, and
  \<open>allocated\<close> that a matrix and its rows are objects of the store.
\<close>

definition cell_ok :: "heap \<Rightarrow> addr \<Rightarrow> nat \<Rightarrow> nat \<Rightarrow> bool" where
  "cell_ok h m row col = (row < length (mats_of h m) \<and> col < length (rows_of h (mats_of h m ! row)))"

definition cell :: "heap \<Rightarrow> addr \<Rightarrow> nat \<Rightarrow> nat \<Rightarrow> ustring" where
  "cell h m row col = rows_of h (mats_of h m ! row) ! col"

definition allocated :: "heap \<Rightarrow> addr \<Rightarrow> bool" where
  "allocated h m = (m < nxt h \<and> (\<forall>r \<in> set (mats_of h m). r < nxt h))"

text \<open>
  The primitives that the drawing methods add, written without the loops: the two edge
  rectangles, the circle of a well, the label of a row and of a column. \<open>emit\<close> appends
  primitives to the document of the object.
\<close>

definition emit :: "plate \<Rightarrow> primitive list \<Rightarrow> plate" where
  "emit self es = self\<lparr>self_svg := (self_svg self)\<lparr>elements := elements (self_svg self) @ es\<rparr>\<rparr>"

definition edges :: "plate \<Rightarrow> primitive list" where
  "edges self =
     [Rect (self_margin self, self_margin self)
           (self_plate_length self, self_plate_width self)
           (self_edge_corner_radius self) (self_edge_thickness self)
           (ustr ''black'') (ustr ''white''),
      Rect (self_margin self + self_edges_distance self, self_margin self + self_edges_distance self)
           (self_plate_length self - 2 * self_edges_distance self,
            self_plate_width self - 2 * self_edges_distance self)
           (self_edge_corner_radius self - self_edges_distance self) (self_edge_thickness self)
           (ustr ''black'') (ustr ''white'')]"

definition well_circle :: "heap \<Rightarrow> plate \<Rightarrow> nat \<Rightarrow> nat \<Rightarrow> primitive" where
  "well_circle h self row col =
     Circle (self_left_x self + of_nat col * self_well_separation self,
             self_top_y self + of_nat row * self_well_separation self)
            (self_well_diameter self / 2) (self_barrier_thickness self) (ustr ''black'')
            (cell h (self_fill_matrix self) row col)"

definition row_circles :: "heap \<Rightarrow> plate \<Rightarrow> nat \<Rightarrow> primitive list" where
  "row_circles h self row = map (well_circle h self row) (range_py (self_n_cols self))"

definition wells :: "heap \<Rightarrow> plate \<Rightarrow> primitive list" where
  "wells h self = concat (map (row_circles h self) (range_py (self_n_rows self)))"

definition row_label :: "plate \<Rightarrow> nat \<Rightarrow> primitive" where
  "row_label self row =
     Text [row + 65]
          (self_left_x self - (3 / 4) * self_well_separation self,
           self_top_y self + of_nat row * self_well_separation self + self_label_font_size self / 8)
          (ustr ''middle'') (self_label_font_size self) (ustr ''middle'') (ustr ''Futura'')"

definition col_label :: "plate \<Rightarrow> nat \<Rightarrow> primitive" where
  "col_label self col =
     Text (str (col + 1))
          (self_left_x self + of_nat col * self_well_separation self,
           self_top_y self - (11 / 20) * self_well_separation self - self_label_font_size self / 8)
          (ustr ''middle'') (self_label_font_size self) (ustr ''middle'') (ustr ''Futura'')"

definition labels :: "plate \<Rightarrow> primitive list" where
  "labels self = map (row_label self) (range_py (self_n_rows self)) @
                 map (col_label self) (range_py (self_n_cols self))"

text \<open>
  The error of drawing one well, if any: the subscript fails when the matrix has no
  entry there, otherwise the library rejects an entry that is not a paint. A row of the
  grid, and the grid, fail with the first error met; \<open>nr\<close> and \<open>nc\<close> are the numbers of rows
  and of columns.
\<close>

definition well_error :: "(ustring \<Rightarrow> bool) \<Rightarrow> heap \<Rightarrow> addr \<Rightarrow> nat \<Rightarrow> nat \<Rightarrow> error option" where
  "well_error is_paint h m row col =
     (if \<not> cell_ok h m row col then Some IndexError
      else if \<not> is_paint (cell h m row col) then Some TypeError
      else None)"

fun first_error :: "error option list \<Rightarrow> error option" where
  "first_error [] = None"
| "first_error (None # xs) = first_error xs"
| "first_error (Some e # xs) = Some e"

definition row_error :: "(ustring \<Rightarrow> bool) \<Rightarrow> heap \<Rightarrow> addr \<Rightarrow> int \<Rightarrow> nat \<Rightarrow> error option" where
  "row_error is_paint h m nc row = first_error (map (well_error is_paint h m row) (range_py nc))"

definition grid_error :: "(ustring \<Rightarrow> bool) \<Rightarrow> heap \<Rightarrow> addr \<Rightarrow> int \<Rightarrow> int \<Rightarrow> error option" where
  "grid_error is_paint h m nr nc = first_error (map (row_error is_paint h m nc) (range_py nr))"

definition wells_ok :: "(ustring \<Rightarrow> bool) \<Rightarrow> heap \<Rightarrow> plate \<Rightarrow> bool" where
  "wells_ok is_paint h self =
     (grid_error is_paint h (self_fill_matrix self) (self_n_rows self) (self_n_cols self) = None)"

text \<open>
  The fill matrix that the constructor builds, and the object as it is when the drawing
  methods are called.
\<close>

definition init_fill :: "heap \<Rightarrow> init_args \<Rightarrow> addr \<times> heap" where
  "init_fill h a =
     (case well_fill a of
        Colour c \<Rightarrow> broadcast h c (n_rows a) (n_cols a)
      | Matrix m \<Rightarrow> deepcopy h m)"

definition plate0 :: "init_args \<Rightarrow> addr \<Rightarrow> plate" where
  "plate0 a fm =
     \<lparr>self_n_rows = n_rows a,
      self_n_cols = n_cols a,
      self_plate_length = plate_length a,
      self_plate_width = plate_width a,
      self_barrier_thickness = barrier_thickness a,
      self_well_diameter = well_diameter a,
      self_well_separation = well_separation a,
      self_margin = margin a,
      self_edge_corner_radius = edge_corner_radius a,
      self_edge_thickness = edge_thickness a,
      self_edges_distance = edges_distance a,
      self_label_font_size = label_font_size a,
      self_fill_matrix = fm,
      self_top_y = margin a + top_padding a,
      self_left_x = margin a + left_padding a,
      self_svg = \<lparr>filename = ustr ''paper-plate.svg'',
                  size_dim = (Dim (plate_length a + 2 * margin a) (ustr ''mm''),
                              Dim (plate_width a + 2 * margin a) (ustr ''mm'')),
                  viewBox = Some (0, 0, plate_length a + 2 * margin a, plate_width a + 2 * margin a),
                  elements = []\<rparr>\<rparr>"

text \<open>
  Concrete inputs: a check of paints that accepts the colour names used below, which the
  library accepts too, the empty store, and the arguments of a plate of 2 by 3 wells.
\<close>

definition named_colour :: "ustring \<Rightarrow> bool" where
  "named_colour s =
     (s \<in> set [ustr ''white'', ustr ''black'', ustr ''red'', ustr ''green'', ustr ''blue''])"

definition empty_heap :: heap where
  "empty_heap = \<lparr>rows_of = (\<lambda>x. []), mats_of = (\<lambda>x. []), nxt = 0\<rparr>"

definition example_args :: init_args where
  "example_args =
     \<lparr>n_rows = 2, n_cols = 3, plate_length = 40, plate_width = 30,
      barrier_thickness = 1 / 2, well_diameter = 4, well_separation = 5,
      margin = 2, left_padding = 5, top_padding = 7,
      edge_corner_radius = 3, edge_thickness = 3 / 4, edges_distance = 1,
      label_font_size = 4, well_fill = Colour (ustr ''white'')\<rparr>"

text \<open>A store with a matrix of one row and two columns: the matrix is object 1, its row object 0.\<close>

definition example_heap :: heap where
  "example_heap =
     \<lparr>rows_of = (\<lambda>x. [])(0 := [ustr ''red'', ustr ''blue'']),
      mats_of = (\<lambda>x. [])(1 := [0]),
      nxt = 2\<rparr>"

text \<open>
  A world for the export: the working directory is \<^verbatim>\<open>/tmp\<close>, every directory can be made
  and every file written, \<^verbatim>\<open>inkscape\<close> is on the path, and every command runs and exits
  with the given status. The path functions are those of \<^verbatim>\<open>os.path\<close> on the name of a
  file of the working directory with an extension of three letters.
\<close>

definition tmp_env :: "int \<Rightarrow> os_env" where
  "tmp_env status =
     \<lparr>abspath = (\<lambda>p. Inr (ustr ''/tmp/'' @ p)),
      dirname = (\<lambda>p. Inr (ustr ''/tmp'')),
      basename = (\<lambda>p. Inr p),
      splitext = (\<lambda>p. Inr (take (length p - 4) p, drop (length p - 4) p)),
      path_join = (\<lambda>d f. Inr (d @ ustr ''/'' @ f)),
      makedirs = (\<lambda>d. Inr ()),
      saveas = (\<lambda>d p. Inr ()),
      which = (\<lambda>c. Inr (Some (ustr ''/usr/bin/'' @ c))),
      system = (\<lambda>c. Inr status)\<rparr>"

text \<open>The plate constructed from the example arguments.\<close>

definition example_plate :: plate where
  "example_plate = fst (projr (PaperPlate_init named_colour empty_heap example_args))"

text \<open>
  Every well has a fill that the library accepts: a single colour that is a paint, or a
  matrix with a paint at every position of the grid.
\<close>

definition has_fills :: "(ustring \<Rightarrow> bool) \<Rightarrow> heap \<Rightarrow> init_args \<Rightarrow> bool" where
  "has_fills is_paint h a =
     (case well_fill a of
        Colour c \<Rightarrow> is_paint c
      | Matrix m \<Rightarrow>
          allocated h m \<and>
          (\<forall>row < nat (n_rows a). \<forall>col < nat (n_cols a).
             case fill_at h m row col of Inl e \<Rightarrow> False | Inr fill \<Rightarrow> is_paint fill))"

section \<open>The drawing loops without recursion\<close>

lemma emit_Nil [simp]: "emit self [] = self"
  by (simp add: emit_def)

lemma emit_emit [simp]: "emit (emit self xs) ys = emit self (xs @ ys)"
  by (simp add: emit_def)

lemma add_emit: "self\<lparr>self_svg := add (self_svg self) e\<rparr> = emit self [e]"
  by (simp add: emit_def add_def)

lemma well_circle_emit [simp]: "well_circle h (emit self es) = well_circle h self"
  by (simp add: well_circle_def emit_def fun_eq_iff)

lemma row_label_emit [simp]: "row_label (emit self es) = row_label self"
  by (simp add: row_label_def emit_def fun_eq_iff)

lemma col_label_emit [simp]: "col_label (emit self es) = col_label self"
  by (simp add: col_label_def emit_def fun_eq_iff)

lemma params_emit [simp]:
  "self_n_rows (emit self es) = self_n_rows self"
  "self_n_cols (emit self es) = self_n_cols self"
  "self_fill_matrix (emit self es) = self_fill_matrix self"
  by (simp_all add: emit_def)

lemma fill_at_eq:
  "fill_at h m row col = (if cell_ok h m row col then Inr (cell h m row col) else Inl IndexError)"
  by (simp add: fill_at_def getitem_def cell_ok_def cell_def)

lemma well_error_fill_at:
  "well_error is_paint h m row col =
     (case fill_at h m row col of
        Inl e \<Rightarrow> Some e
      | Inr fill \<Rightarrow> if \<not> is_paint fill then Some TypeError else None)"
  by (simp add: well_error_def fill_at_eq)

lemma draw_wells_cols_step:
  "draw_wells_cols is_paint h self row (col # cols) =
     (case well_error is_paint h (self_fill_matrix self) row col of
        Some e \<Rightarrow> Inl e
      | None \<Rightarrow> draw_wells_cols is_paint h (emit self [well_circle h self row col]) row cols)"
  by (simp add: well_error_def fill_at_eq add_emit [symmetric] well_circle_def)

lemma draw_wells_cols_eq:
  "draw_wells_cols is_paint h self row cols =
     (case first_error (map (well_error is_paint h (self_fill_matrix self) row) cols) of
        None \<Rightarrow> Inr (emit self (map (well_circle h self row) cols))
      | Some e \<Rightarrow> Inl e)"
proof (induction cols arbitrary: self)
  case Nil
  show ?case by simp
next
  case (Cons col cols)
  show ?case
    unfolding draw_wells_cols_step
    by (cases "well_error is_paint h (self_fill_matrix self) row col")
       (simp_all add: Cons.IH split: option.split)
qed

lemma row_circles_emit [simp]: "row_circles h (emit self es) = row_circles h self"
  by (simp add: row_circles_def fun_eq_iff)

lemma draw_wells_rows_eq:
  "draw_wells_rows is_paint h self rows =
     (case first_error
             (map (row_error is_paint h (self_fill_matrix self) (self_n_cols self)) rows) of
        None \<Rightarrow> Inr (emit self (concat (map (row_circles h self) rows)))
      | Some e \<Rightarrow> Inl e)"
proof (induction rows arbitrary: self)
  case Nil
  show ?case by simp
next
  case (Cons row rows)
  show ?case
    by (cases "row_error is_paint h (self_fill_matrix self) (self_n_cols self) row")
       (simp_all add: draw_wells_cols_eq Cons.IH row_error_def [symmetric]
          row_circles_def [symmetric] split: option.split)
qed

lemma draw_labels_rows_step:
  "draw_labels_rows self (row # rows) =
     (if row + 65 < 1114112
      then draw_labels_rows (emit self [row_label self row]) rows
      else Inl ValueError)"
  by (simp add: chr_def add_emit [symmetric] row_label_def Let_def add.commute)

lemma draw_labels_rows_eq:
  "draw_labels_rows self rows =
     (if \<forall>row \<in> set rows. row + 65 < 1114112
      then Inr (emit self (map (row_label self) rows))
      else Inl ValueError)"
proof (induction rows arbitrary: self)
  case Nil
  show ?case by simp
next
  case (Cons row rows)
  show ?case
    unfolding draw_labels_rows_step by (simp add: Cons.IH)
qed

lemma draw_labels_cols_step:
  "draw_labels_cols self (col # cols) = draw_labels_cols (emit self [col_label self col]) cols"
  by (simp add: add_emit [symmetric] col_label_def Let_def add.commute)

lemma draw_labels_cols_eq:
  "draw_labels_cols self cols = emit self (map (col_label self) cols)"
proof (induction cols arbitrary: self)
  case Nil
  show ?case by simp
next
  case (Cons col cols)
  show ?case
    unfolding draw_labels_cols_step by (simp add: Cons.IH)
qed

section \<open>Allocation, broadcast and deep copy\<close>

lemma new_row_simps [simp]:
  "fst (new_row h cs) = nxt h"
  "nxt (snd (new_row h cs)) = Suc (nxt h)"
  "mats_of (snd (new_row h cs)) = mats_of h"
  "rows_of (snd (new_row h cs)) = (rows_of h)(nxt h := cs)"
  by (simp_all add: new_row_def)

lemma new_mat_simps [simp]:
  "fst (new_mat h rs) = nxt h"
  "nxt (snd (new_mat h rs)) = Suc (nxt h)"
  "rows_of (snd (new_mat h rs)) = rows_of h"
  "mats_of (snd (new_mat h rs)) = (mats_of h)(nxt h := rs)"
  by (simp_all add: new_mat_def)

lemma broadcast_rows_props:
  "broadcast_rows h c n js = (rs, h') \<Longrightarrow>
     length rs = length js \<and> (\<forall>i < length js. rs ! i = nxt h + i) \<and> nxt h' = nxt h + length js \<and> mats_of h' = mats_of h \<and>
     (\<forall>x. rows_of h' x = (if nxt h \<le> x \<and> x < nxt h' then map (\<lambda>i. c) (range_py n) else rows_of h x))"
proof (induction js arbitrary: h rs h')
  case Nil
  then show ?case by auto
next
  case (Cons j js)
  obtain rs1 h2 where rec: "broadcast_rows (snd (new_row h (map (\<lambda>i. c) (range_py n)))) c n js = (rs1, h2)"
    by (cases "broadcast_rows (snd (new_row h (map (\<lambda>i. c) (range_py n)))) c n js")
  from Cons.prems rec have rs: "rs = nxt h # rs1" and h': "h' = h2"
    by (simp_all add: split_beta Let_def)
  note ih = Cons.IH [OF rec]
  show ?case
    using ih by (auto simp: rs h' nth_Cons split: nat.splits)
qed

lemma deepcopy_rows_props:
  assumes "deepcopy_rows h memo rs = (rs', h')"
    and "\<forall>r r'. memo r = Some r' \<longrightarrow> r < n0 \<and> n0 \<le> r' \<and> r' < nxt h \<and> rows_of h r' = rows_of h r"
    and "n0 \<le> nxt h"
    and "\<forall>r \<in> set rs. r < n0"
  shows "length rs' = length rs \<and> nxt h \<le> nxt h' \<and> mats_of h' = mats_of h \<and>
         (\<forall>x < nxt h. rows_of h' x = rows_of h x) \<and>
         (\<forall>i < length rs. n0 \<le> rs' ! i \<and> rs' ! i < nxt h' \<and> rows_of h' (rs' ! i) = rows_of h (rs ! i))"
  using assms
proof (induction rs arbitrary: h memo rs' h')
  case Nil
  then show ?case by auto
next
  case (Cons r rs)
  show ?case
  proof (cases "memo r")
    case (Some r1)
    obtain rs1 h2 where rec: "deepcopy_rows h memo rs = (rs1, h2)"
      by (cases "deepcopy_rows h memo rs")
    from Cons.prems(1) Some rec have rs': "rs' = r1 # rs1" and h': "h' = h2"
      by simp_all
    have ih: "length rs1 = length rs \<and> nxt h \<le> nxt h2 \<and> mats_of h2 = mats_of h \<and>
         (\<forall>x < nxt h. rows_of h2 x = rows_of h x) \<and>
         (\<forall>i < length rs. n0 \<le> rs1 ! i \<and> rs1 ! i < nxt h2 \<and> rows_of h2 (rs1 ! i) = rows_of h (rs ! i))"
      using Cons.IH [OF rec Cons.prems(2) Cons.prems(3)] Cons.prems(4) by simp
    from Cons.prems(2) Some have r1: "n0 \<le> r1" "r1 < nxt h" "rows_of h r1 = rows_of h r"
      by auto
    show ?thesis
      unfolding rs' h' using ih r1 by (auto simp: nth_Cons split: nat.splits)
  next
    case None
    let ?h1 = "snd (new_row h (rows_of h r))"
    let ?memo1 = "memo(r \<mapsto> nxt h)"
    obtain rs1 h2 where rec: "deepcopy_rows ?h1 ?memo1 rs = (rs1, h2)"
      by (cases "deepcopy_rows ?h1 ?memo1 rs")
    from Cons.prems(1) None rec have rs': "rs' = nxt h # rs1" and h': "h' = h2"
      by (simp_all add: split_beta Let_def)
    have r: "r < n0" and rs: "\<forall>r \<in> set rs. r < n0"
      using Cons.prems(4) by simp_all
    have inv1: "\<forall>a a'. ?memo1 a = Some a' \<longrightarrow> a < n0 \<and> n0 \<le> a' \<and> a' < nxt ?h1 \<and> rows_of ?h1 a' = rows_of ?h1 a"
    proof (intro allI impI)
      fix a a'
      assume m: "?memo1 a = Some a'"
      show "a < n0 \<and> n0 \<le> a' \<and> a' < nxt ?h1 \<and> rows_of ?h1 a' = rows_of ?h1 a"
      proof (cases "a = r")
        case True
        with m have "a' = nxt h" by simp
        with True r Cons.prems(3) show ?thesis by auto
      next
        case False
        with m have "memo a = Some a'" by simp
        with Cons.prems(2) have "a < n0 \<and> n0 \<le> a' \<and> a' < nxt h \<and> rows_of h a' = rows_of h a"
          by blast
        with Cons.prems(3) show ?thesis by auto
      qed
    qed
    have n1: "n0 \<le> nxt ?h1"
      using Cons.prems(3) by simp
    have ih: "length rs1 = length rs \<and> nxt ?h1 \<le> nxt h2 \<and> mats_of h2 = mats_of ?h1 \<and>
         (\<forall>x < nxt ?h1. rows_of h2 x = rows_of ?h1 x) \<and>
         (\<forall>i < length rs. n0 \<le> rs1 ! i \<and> rs1 ! i < nxt h2 \<and> rows_of h2 (rs1 ! i) = rows_of ?h1 (rs ! i))"
      using Cons.IH [OF rec inv1 n1 rs] .
    have old: "\<forall>x < nxt h. rows_of h2 x = rows_of h x"
    proof (intro allI impI)
      fix x assume "x < nxt h"
      with ih have "rows_of h2 x = rows_of ?h1 x" by simp
      with \<open>x < nxt h\<close> show "rows_of h2 x = rows_of h x" by simp
    qed
    have cells: "\<forall>i < length (r # rs). n0 \<le> (nxt h # rs1) ! i \<and> (nxt h # rs1) ! i < nxt h2 \<and>
                   rows_of h2 ((nxt h # rs1) ! i) = rows_of h ((r # rs) ! i)"
    proof (intro allI impI)
      fix i assume i: "i < length (r # rs)"
      show "n0 \<le> (nxt h # rs1) ! i \<and> (nxt h # rs1) ! i < nxt h2 \<and>
                   rows_of h2 ((nxt h # rs1) ! i) = rows_of h ((r # rs) ! i)"
      proof (cases i)
        case 0
        from ih have "rows_of h2 (nxt h) = rows_of ?h1 (nxt h)" by simp
        with ih Cons.prems(3) 0 show ?thesis by simp
      next
        case (Suc j)
        with i have j: "j < length rs" by simp
        with rs have "rs ! j < n0" by simp
        with Cons.prems(3) have "rows_of ?h1 (rs ! j) = rows_of h (rs ! j)" by simp
        with ih j Suc show ?thesis by simp
      qed
    qed
    from ih have "length rs1 = length rs" "nxt h \<le> nxt h2" "mats_of h2 = mats_of h"
      by simp_all
    with old cells show ?thesis
      unfolding rs' h' by simp
  qed
qed

section \<open>The constructor\<close>

lemma draw_edges_eq: "draw_edges self = emit self (edges self)"
  by (simp add: draw_edges_def edges_def emit_def add_def Let_def)

lemma edges_emit [simp]: "edges (emit self es) = edges self"
  by (simp add: edges_def emit_def)

lemma wells_emit [simp]: "wells h (emit self es) = wells h self"
  by (simp add: wells_def)

lemma labels_emit [simp]: "labels (emit self es) = labels self"
  by (simp add: labels_def)

lemma wells_ok_emit [simp]: "wells_ok is_paint h (emit self es) = wells_ok is_paint h self"
  by (simp add: wells_ok_def)

lemma draw_wells_eq:
  "draw_wells is_paint h self =
     (case grid_error is_paint h (self_fill_matrix self) (self_n_rows self) (self_n_cols self) of
        None \<Rightarrow> Inr (emit self (wells h self))
      | Some e \<Rightarrow> Inl e)"
  by (simp add: draw_wells_def draw_wells_rows_eq grid_error_def wells_def split: option.split)

lemma range_py_bound: "(\<forall>row \<in> set (range_py n). row < 1114047) \<longleftrightarrow> n \<le> 1114047"
proof
  assume a: "\<forall>row \<in> set (range_py n). row < 1114047"
  show "n \<le> 1114047"
  proof (rule ccontr)
    assume "\<not> n \<le> 1114047"
    then have "(1114047::nat) \<in> set (range_py n)" by (simp add: range_py_def)
    with a have "(1114047::nat) < 1114047" by blast
    then show False by simp
  qed
next
  assume "n \<le> 1114047"
  then show "\<forall>row \<in> set (range_py n). row < 1114047"
    by (auto simp: range_py_def)
qed

lemma draw_labels_eq:
  "draw_labels self =
     (if self_n_rows self \<le> 1114047 then Inr (emit self (labels self)) else Inl ValueError)"
  by (simp add: draw_labels_def draw_labels_rows_eq draw_labels_cols_eq range_py_bound labels_def)

lemma PaperPlate_init_plate0:
  "PaperPlate_init is_paint h a =
     (case draw_wells is_paint (snd (init_fill h a))
             (draw_edges (plate0 a (fst (init_fill h a)))) of
        Inl e \<Rightarrow> Inl e
      | Inr self1 \<Rightarrow>
          (case draw_labels self1 of
             Inl e \<Rightarrow> Inl e
           | Inr self2 \<Rightarrow> Inr (self2, snd (init_fill h a))))"
  unfolding PaperPlate_init_def init_fill_def plate0_def Drawing_def viewbox_def Let_def split_beta
  by simp

lemma PaperPlate_init_eq:
  "PaperPlate_init is_paint h a =
     (let fm = fst (init_fill h a); h1 = snd (init_fill h a); self = plate0 a fm
      in case grid_error is_paint h1 fm (n_rows a) (n_cols a) of
           Some e \<Rightarrow> Inl e
         | None \<Rightarrow>
             if \<not> n_rows a \<le> 1114047 then Inl ValueError
             else Inr (emit self (edges self @ wells h1 self @ labels self), h1))"
proof -
  let ?fm = "fst (init_fill h a)" and ?h1 = "snd (init_fill h a)"
  have p: "self_n_rows (plate0 a ?fm) = n_rows a" "self_n_cols (plate0 a ?fm) = n_cols a"
    "self_fill_matrix (plate0 a ?fm) = ?fm"
    by (simp_all add: plate0_def)
  show ?thesis
    unfolding PaperPlate_init_plate0
    by (cases "grid_error is_paint ?h1 ?fm (n_rows a) (n_cols a)")
       (simp_all add: draw_edges_eq draw_wells_eq draw_labels_eq Let_def p)
qed

lemma plate0_simps [simp]:
  "self_n_rows (plate0 a fm) = n_rows a"
  "self_n_cols (plate0 a fm) = n_cols a"
  "self_fill_matrix (plate0 a fm) = fm"
  "elements (self_svg (plate0 a fm)) = []"
  by (simp_all add: plate0_def)

lemma cell_ok_view:
  "cell_ok h m row col \<longleftrightarrow>
     row < length (matrix_view h m) \<and> col < length (matrix_view h m ! row)"
  by (auto simp: cell_ok_def matrix_view_def)

lemma cell_view:
  "row < length (matrix_view h m) \<Longrightarrow> cell h m row col = matrix_view h m ! row ! col"
  by (simp add: cell_def matrix_view_def)

lemma first_error_None: "first_error xs = None \<longleftrightarrow> (\<forall>x \<in> set xs. x = None)"
  by (induction xs rule: first_error.induct) simp_all

lemma first_error_Some: "first_error xs = Some e \<Longrightarrow> Some e \<in> set xs"
  by (induction xs rule: first_error.induct) simp_all

lemma well_error_None:
  "well_error is_paint h m row col = None \<longleftrightarrow>
     cell_ok h m row col \<and> is_paint (cell h m row col)"
  by (simp add: well_error_def)

lemma grid_error_None:
  "grid_error is_paint h m nr nc = None \<longleftrightarrow>
     (\<forall>row < nat nr. \<forall>col < nat nc. cell_ok h m row col \<and> is_paint (cell h m row col))"
  by (auto simp: grid_error_def row_error_def first_error_None well_error_None range_py_def)

lemma grid_error_Some:
  assumes "grid_error is_paint h m nr nc = Some e"
  shows "\<exists>row < nat nr. \<exists>col < nat nc. well_error is_paint h m row col = Some e"
proof -
  from first_error_Some [OF assms [unfolded grid_error_def]]
  obtain row where row: "row < nat nr" and r: "row_error is_paint h m nc row = Some e"
    by (auto simp: range_py_def)
  from first_error_Some [OF r [unfolded row_error_def]]
  obtain col where "col < nat nc" and "well_error is_paint h m row col = Some e"
    by (auto simp: range_py_def)
  with row show ?thesis by blast
qed

lemma well_error_view:
  "well_error is_paint h m row col =
     (if \<not> (row < length (matrix_view h m) \<and> col < length (matrix_view h m ! row))
      then Some IndexError
      else if \<not> is_paint (matrix_view h m ! row ! col) then Some TypeError
      else None)"
  by (auto simp: well_error_def cell_ok_view cell_view)

lemma grid_error_view:
  assumes "matrix_view h1 m1 = matrix_view h m"
  shows "grid_error is_paint h1 m1 nr nc = grid_error is_paint h m nr nc"
proof -
  have "well_error is_paint h1 m1 = well_error is_paint h m"
    by (simp add: fun_eq_iff well_error_view assms)
  then show ?thesis
    by (simp add: grid_error_def row_error_def [abs_def])
qed

lemma wells_ok_iff:
  "wells_ok is_paint h self \<longleftrightarrow>
     (\<forall>row < nat (self_n_rows self). \<forall>col < nat (self_n_cols self).
        cell_ok h (self_fill_matrix self) row col \<and>
        is_paint (cell h (self_fill_matrix self) row col))"
  by (simp add: wells_ok_def grid_error_None)

lemma broadcast_view:
  assumes "broadcast h c n m = (fm, h1)"
  shows "matrix_view h1 fm = replicate (nat n) (replicate (nat m) c)"
    and "nxt h \<le> fm" and "\<forall>r \<in> set (mats_of h1 fm). nxt h \<le> r"
proof -
  obtain rs h0 where br: "broadcast_rows h c m (range_py n) = (rs, h0)"
    by (cases "broadcast_rows h c m (range_py n)")
  note p = broadcast_rows_props [OF br]
  from assms br have fm: "fm = nxt h0" and h1: "h1 = snd (new_mat h0 rs)"
    by (auto simp: broadcast_def new_mat_def)
  have len: "length rs = nat n"
    using p by (simp add: range_py_def)
  have rows: "\<forall>i < nat n. rows_of h0 (rs ! i) = replicate (nat m) c"
    using p by (simp add: range_py_def map_replicate_const)
  have "map (rows_of h0) rs = replicate (nat n) (replicate (nat m) c)"
    by (rule nth_equalityI) (simp_all add: len rows)
  then show "matrix_view h1 fm = replicate (nat n) (replicate (nat m) c)"
    by (simp add: matrix_view_def fm h1)
  from p show "nxt h \<le> fm" by (simp add: fm)
  have "\<forall>r \<in> set rs. nxt h \<le> r"
    using p by (auto simp: in_set_conv_nth range_py_def)
  then show "\<forall>r \<in> set (mats_of h1 fm). nxt h \<le> r"
    by (simp add: fm h1)
qed

lemma deepcopy_rows_fresh:
  assumes "deepcopy_rows h memo rs = (rs', h')"
    and "\<forall>r r'. memo r = Some r' \<longrightarrow> n0 \<le> r'"
    and "n0 \<le> nxt h"
  shows "nxt h \<le> nxt h' \<and> (\<forall>x \<in> set rs'. n0 \<le> x)"
  using assms
proof (induction rs arbitrary: h memo rs' h')
  case Nil
  then show ?case by auto
next
  case (Cons r rs)
  show ?case
  proof (cases "memo r")
    case (Some r1)
    obtain rs1 h2 where rec: "deepcopy_rows h memo rs = (rs1, h2)"
      by (cases "deepcopy_rows h memo rs")
    from Cons.prems(1) Some rec have rs': "rs' = r1 # rs1" and h': "h' = h2"
      by simp_all
    from Cons.prems(2) Some have "n0 \<le> r1" by blast
    with Cons.IH [OF rec Cons.prems(2) Cons.prems(3)] show ?thesis
      unfolding rs' h' by simp
  next
    case None
    let ?h1 = "snd (new_row h (rows_of h r))"
    let ?memo1 = "memo(r \<mapsto> nxt h)"
    obtain rs1 h2 where rec: "deepcopy_rows ?h1 ?memo1 rs = (rs1, h2)"
      by (cases "deepcopy_rows ?h1 ?memo1 rs")
    from Cons.prems(1) None rec have rs': "rs' = nxt h # rs1" and h': "h' = h2"
      by (simp_all add: split_beta Let_def)
    have inv1: "\<forall>a a'. ?memo1 a = Some a' \<longrightarrow> n0 \<le> a'"
      using Cons.prems(2,3) by auto
    have n1: "n0 \<le> nxt ?h1"
      using Cons.prems(3) by simp
    from Cons.IH [OF rec inv1 n1] Cons.prems(3) show ?thesis
      unfolding rs' h' by simp
  qed
qed

lemma deepcopy_fresh:
  assumes "deepcopy h m = (fm, h1)"
  shows "nxt h \<le> fm" and "\<forall>r \<in> set (mats_of h1 fm). nxt h \<le> r"
proof -
  obtain rs h0 where dr: "deepcopy_rows h Map.empty (mats_of h m) = (rs, h0)"
    by (cases "deepcopy_rows h Map.empty (mats_of h m)")
  from assms dr have fm: "fm = nxt h0" and h1: "h1 = snd (new_mat h0 rs)"
    by (auto simp: deepcopy_def new_mat_def)
  have p: "nxt h \<le> nxt h0 \<and> (\<forall>x \<in> set rs. nxt h \<le> x)"
    by (rule deepcopy_rows_fresh [OF dr]) simp_all
  from p show "nxt h \<le> fm" by (simp add: fm)
  from p show "\<forall>r \<in> set (mats_of h1 fm). nxt h \<le> r" by (simp add: fm h1)
qed

lemma deepcopy_view:
  assumes "deepcopy h m = (fm, h1)" and "allocated h m"
  shows "matrix_view h1 fm = matrix_view h m"
proof -
  obtain rs h0 where dr: "deepcopy_rows h Map.empty (mats_of h m) = (rs, h0)"
    by (cases "deepcopy_rows h Map.empty (mats_of h m)")
  from assms(1) dr have fm: "fm = nxt h0" and h1: "h1 = snd (new_mat h0 rs)"
    by (auto simp: deepcopy_def new_mat_def)
  have "length rs = length (mats_of h m) \<and> nxt h \<le> nxt h0 \<and> mats_of h0 = mats_of h \<and>
         (\<forall>x < nxt h. rows_of h0 x = rows_of h x) \<and>
         (\<forall>i < length (mats_of h m). nxt h \<le> rs ! i \<and> rs ! i < nxt h0 \<and>
              rows_of h0 (rs ! i) = rows_of h (mats_of h m ! i))"
    using assms(2) by (intro deepcopy_rows_props [OF dr]) (simp_all add: allocated_def)
  then have "map (rows_of h0) rs = map (rows_of h) (mats_of h m)"
    by (intro nth_equalityI) simp_all
  then show ?thesis
    by (simp add: matrix_view_def fm h1)
qed

lemma broadcast_bound:
  assumes "broadcast h c n m = (fm, h1)"
  shows "fm < nxt h1" and "\<forall>r \<in> set (mats_of h1 fm). r < nxt h1"
proof -
  obtain rs h0 where br: "broadcast_rows h c m (range_py n) = (rs, h0)"
    by (cases "broadcast_rows h c m (range_py n)")
  note p = broadcast_rows_props [OF br]
  from assms br have fm: "fm = nxt h0" and h1: "h1 = snd (new_mat h0 rs)"
    by (auto simp: broadcast_def new_mat_def)
  show "fm < nxt h1" by (simp add: fm h1)
  have "\<forall>r \<in> set rs. r < nxt h0"
    using p by (auto simp: in_set_conv_nth)
  then show "\<forall>r \<in> set (mats_of h1 fm). r < nxt h1"
    by (auto simp: fm h1 less_Suc_eq)
qed

lemma deepcopy_rows_bound:
  assumes "deepcopy_rows h memo rs = (rs', h')"
    and "\<forall>r r'. memo r = Some r' \<longrightarrow> r' < nxt h"
  shows "nxt h \<le> nxt h' \<and> (\<forall>x \<in> set rs'. x < nxt h')"
  using assms
proof (induction rs arbitrary: h memo rs' h')
  case Nil
  then show ?case by auto
next
  case (Cons r rs)
  show ?case
  proof (cases "memo r")
    case (Some r1)
    obtain rs1 h2 where rec: "deepcopy_rows h memo rs = (rs1, h2)"
      by (cases "deepcopy_rows h memo rs")
    from Cons.prems(1) Some rec have rs': "rs' = r1 # rs1" and h': "h' = h2"
      by simp_all
    from Cons.prems(2) Some have "r1 < nxt h" by blast
    with Cons.IH [OF rec Cons.prems(2)] show ?thesis
      unfolding rs' h' by auto
  next
    case None
    let ?h1 = "snd (new_row h (rows_of h r))"
    let ?memo1 = "memo(r \<mapsto> nxt h)"
    obtain rs1 h2 where rec: "deepcopy_rows ?h1 ?memo1 rs = (rs1, h2)"
      by (cases "deepcopy_rows ?h1 ?memo1 rs")
    from Cons.prems(1) None rec have rs': "rs' = nxt h # rs1" and h': "h' = h2"
      by (simp_all add: split_beta Let_def)
    have inv1: "\<forall>a a'. ?memo1 a = Some a' \<longrightarrow> a' < nxt ?h1"
      using Cons.prems(2) by (auto simp: less_Suc_eq)
    from Cons.IH [OF rec inv1] show ?thesis
      unfolding rs' h' by auto
  qed
qed

lemma deepcopy_bound:
  assumes "deepcopy h m = (fm, h1)"
  shows "fm < nxt h1" and "\<forall>r \<in> set (mats_of h1 fm). r < nxt h1"
proof -
  obtain rs h0 where dr: "deepcopy_rows h Map.empty (mats_of h m) = (rs, h0)"
    by (cases "deepcopy_rows h Map.empty (mats_of h m)")
  from assms dr have fm: "fm = nxt h0" and h1: "h1 = snd (new_mat h0 rs)"
    by (auto simp: deepcopy_def new_mat_def)
  have p: "nxt h \<le> nxt h0 \<and> (\<forall>x \<in> set rs. x < nxt h0)"
    by (rule deepcopy_rows_bound [OF dr]) simp
  show "fm < nxt h1" by (simp add: fm h1)
  from p show "\<forall>r \<in> set (mats_of h1 fm). r < nxt h1"
    by (auto simp: fm h1 less_Suc_eq)
qed

lemma init_fill_fresh:
  assumes "init_fill h a = (fm, h1)"
  shows "nxt h \<le> fm" and "\<forall>r \<in> set (mats_of h1 fm). nxt h \<le> r"
    and "fm < nxt h1" and "\<forall>r \<in> set (mats_of h1 fm). r < nxt h1"
proof -
  show "nxt h \<le> fm" and "\<forall>r \<in> set (mats_of h1 fm). nxt h \<le> r"
    using assms broadcast_view(2,3) deepcopy_fresh
    by (auto simp: init_fill_def split: well_fill.splits)
  show "fm < nxt h1" and "\<forall>r \<in> set (mats_of h1 fm). r < nxt h1"
    using assms broadcast_bound deepcopy_bound
    by (auto simp: init_fill_def split: well_fill.splits)
qed

lemma view_cong:
  assumes "nxt h \<le> fm" and "\<forall>r \<in> set (mats_of h1 fm). nxt h \<le> r"
    and "fm < nxt h1" and "\<forall>r \<in> set (mats_of h1 fm). r < nxt h1"
    and "\<forall>x. nxt h \<le> x \<and> x < nxt h1 \<longrightarrow>
           rows_of h2 x = rows_of h1 x \<and> mats_of h2 x = mats_of h1 x"
  shows "matrix_view h2 fm = matrix_view h1 fm"
  using assms by (simp add: matrix_view_def)

lemma PaperPlate_init_Inr:
  assumes "PaperPlate_init is_paint h a = Inr (self, h')"
  shows "init_fill h a = (self_fill_matrix self, h')"
    and "wells_ok is_paint h' (plate0 a (self_fill_matrix self))"
    and "n_rows a \<le> 1114047"
    and "self = emit (plate0 a (self_fill_matrix self))
                  (edges (plate0 a (self_fill_matrix self)) @
                   wells h' (plate0 a (self_fill_matrix self)) @
                   labels (plate0 a (self_fill_matrix self)))"
proof -
  let ?fm = "fst (init_fill h a)" and ?h1 = "snd (init_fill h a)"
  from assms have ok: "grid_error is_paint ?h1 ?fm (n_rows a) (n_cols a) = None"
    "n_rows a \<le> 1114047"
    and self: "self = emit (plate0 a ?fm) (edges (plate0 a ?fm) @ wells ?h1 (plate0 a ?fm) @ labels (plate0 a ?fm))"
    and h': "h' = ?h1"
    by (auto simp: PaperPlate_init_eq Let_def split: if_splits option.splits)
  from self have fm: "self_fill_matrix self = ?fm" by simp
  show "init_fill h a = (self_fill_matrix self, h')" by (simp add: fm h')
  show "wells_ok is_paint h' (plate0 a (self_fill_matrix self))"
    using ok by (simp add: fm h' wells_ok_def)
  show "n_rows a \<le> 1114047" by fact
  show "self = emit (plate0 a (self_fill_matrix self))
                  (edges (plate0 a (self_fill_matrix self)) @
                   wells h' (plate0 a (self_fill_matrix self)) @
                   labels (plate0 a (self_fill_matrix self)))"
    using self by (simp add: fm h')
qed

lemma emit_plate0_elements [simp]: "elements (self_svg (emit (plate0 a fm) es)) = es"
  by (simp add: emit_def)

lemma init_elements:
  assumes "PaperPlate_init is_paint h a = Inr (self, h')"
  shows "elements (self_svg self) = edges self @ wells h' self @ labels self"
proof -
  let ?p = "plate0 a (self_fill_matrix self)"
  have self: "self = emit ?p (edges ?p @ wells h' ?p @ labels ?p)"
    by (rule PaperPlate_init_Inr(4) [OF assms])
  have "elements (self_svg (emit ?p (edges ?p @ wells h' ?p @ labels ?p))) =
          edges ?p @ wells h' ?p @ labels ?p"
    by (rule emit_plate0_elements)
  moreover have "edges self = edges ?p" "wells h' self = wells h' ?p" "labels self = labels ?p"
    by (subst self, simp)+
  ultimately show ?thesis using self by simp
qed

lemma init_params:
  assumes "PaperPlate_init is_paint h a = Inr (self, h')"
  shows "self_n_rows self = n_rows a" "self_n_cols self = n_cols a"
    "self_plate_length self = plate_length a" "self_plate_width self = plate_width a"
    "self_barrier_thickness self = barrier_thickness a" "self_well_diameter self = well_diameter a"
    "self_well_separation self = well_separation a" "self_margin self = margin a"
    "self_edge_corner_radius self = edge_corner_radius a"
    "self_edge_thickness self = edge_thickness a" "self_edges_distance self = edges_distance a"
    "self_label_font_size self = label_font_size a"
    "self_top_y self = margin a + top_padding a" "self_left_x self = margin a + left_padding a"
    "size_dim (self_svg self) = (Dim (plate_length a + 2 * margin a) (ustr ''mm''),
                                 Dim (plate_width a + 2 * margin a) (ustr ''mm''))"
    "viewBox (self_svg self) = Some (0, 0, plate_length a + 2 * margin a, plate_width a + 2 * margin a)"
    "filename (self_svg self) = ustr ''paper-plate.svg''"
  by (subst PaperPlate_init_Inr(4) [OF assms], simp add: emit_def plate0_def)+

lemma init_wells_ok:
  assumes "PaperPlate_init is_paint h a = Inr (self, h')"
  shows "wells_ok is_paint h' self"
  using PaperPlate_init_Inr(2) [OF assms] init_params(1,2) [OF assms]
  by (simp add: wells_ok_iff)

lemma filter_edges [simp]:
  "filter is_rect (edges self) = edges self"
  "filter is_circle (edges self) = []"
  "filter is_text (edges self) = []"
  by (simp_all add: edges_def)

lemma filter_wells [simp]:
  "filter is_rect (wells h self) = []"
  "filter is_circle (wells h self) = wells h self"
  "filter is_text (wells h self) = []"
  by (auto simp: wells_def row_circles_def well_circle_def filter_empty_conv filter_id_conv)

lemma filter_labels [simp]:
  "filter is_rect (labels self) = []"
  "filter is_circle (labels self) = []"
  "filter is_text (labels self) = labels self"
  by (auto simp: labels_def row_label_def col_label_def filter_empty_conv filter_id_conv)

lemma grid_length: "length (concat (map (\<lambda>i. map (f i) [0..<m]) [0..<n])) = n * m"
  by (induction n) simp_all

lemma grid_index: "i * m + j < n * m" if "i < n" "j < m" for i j m n :: nat
proof -
  from that have "i * m + j < i * m + m" by simp
  also have "\<dots> = Suc i * m" by simp
  also from that have "\<dots> \<le> n * m" by (intro mult_le_mono1) simp
  finally show ?thesis .
qed

lemma grid_nth:
  "i < n \<Longrightarrow> j < m \<Longrightarrow> concat (map (\<lambda>i. map (f i) [0..<m]) [0..<n]) ! (i * m + j) = f i j"
proof (induction n)
  case 0
  then show ?case by simp
next
  case (Suc n)
  show ?case
  proof (cases "i < n")
    case True
    with Suc.prems have "i * m + j < n * m" by (intro grid_index)
    with Suc.IH True Suc.prems show ?thesis
      by (simp add: nth_append grid_length)
  next
    case False
    with Suc.prems have "i = n" by simp
    with Suc.prems show ?thesis
      by (simp add: nth_append grid_length)
  qed
qed

lemma wells_as_grid:
  "wells h self = concat (map (\<lambda>row. map (well_circle h self row) [0..<nat (self_n_cols self)])
                             [0..<nat (self_n_rows self)])"
  by (simp add: wells_def row_circles_def [abs_def] range_py_def)

lemma init_Colour_grid:
  assumes "well_fill a = Colour c" and "is_paint c"
  shows "grid_error is_paint (snd (init_fill h a)) (fst (init_fill h a)) (n_rows a) (n_cols a) = None"
proof -
  obtain fm h1 where f: "init_fill h a = (fm, h1)"
    by (cases "init_fill h a")
  with assms(1) have "broadcast h c (n_rows a) (n_cols a) = (fm, h1)"
    by (simp add: init_fill_def)
  then have "matrix_view h1 fm = replicate (nat (n_rows a)) (replicate (nat (n_cols a)) c)"
    by (rule broadcast_view(1))
  with assms(2) f show ?thesis
    by (simp add: grid_error_None cell_ok_view cell_view)
qed

lemma init_Colour:
  assumes "well_fill a = Colour c" and "n_rows a \<le> 1114047" and "is_paint c"
  shows "\<exists>self h'. PaperPlate_init is_paint h a = Inr (self, h')"
  using init_Colour_grid [where is_paint = is_paint and h = h, OF assms(1,3)] assms(2)
  by (simp add: PaperPlate_init_eq Let_def)

lemma init_Matrix:
  assumes "well_fill a = Matrix m" and "allocated h m"
  shows "grid_error is_paint h m (n_rows a) (n_cols a) = Some e \<Longrightarrow>
           PaperPlate_init is_paint h a = Inl e"
    and "grid_error is_paint h m (n_rows a) (n_cols a) = None \<Longrightarrow>
           \<not> n_rows a \<le> 1114047 \<Longrightarrow> PaperPlate_init is_paint h a = Inl ValueError"
    and "grid_error is_paint h m (n_rows a) (n_cols a) = None \<Longrightarrow>
           n_rows a \<le> 1114047 \<Longrightarrow> \<exists>self h'. PaperPlate_init is_paint h a = Inr (self, h')"
proof -
  obtain fm h1 where f: "init_fill h a = (fm, h1)"
    by (cases "init_fill h a")
  with assms(1) have "deepcopy h m = (fm, h1)"
    by (simp add: init_fill_def)
  then have "matrix_view h1 fm = matrix_view h m"
    using assms(2) by (rule deepcopy_view)
  then have g: "grid_error is_paint h1 fm (n_rows a) (n_cols a) =
                grid_error is_paint h m (n_rows a) (n_cols a)"
    by (rule grid_error_view)
  show "grid_error is_paint h m (n_rows a) (n_cols a) = Some e \<Longrightarrow>
           PaperPlate_init is_paint h a = Inl e"
    using f g by (simp add: PaperPlate_init_eq Let_def)
  show "grid_error is_paint h m (n_rows a) (n_cols a) = None \<Longrightarrow>
           \<not> n_rows a \<le> 1114047 \<Longrightarrow> PaperPlate_init is_paint h a = Inl ValueError"
    using f g by (simp add: PaperPlate_init_eq Let_def)
  show "grid_error is_paint h m (n_rows a) (n_cols a) = None \<Longrightarrow>
           n_rows a \<le> 1114047 \<Longrightarrow> \<exists>self h'. PaperPlate_init is_paint h a = Inr (self, h')"
    using f g by (simp add: PaperPlate_init_eq Let_def)
qed

lemma init_circles:
  assumes "PaperPlate_init is_paint h a = Inr (self, h')"
  shows "circles (self_svg self) =
           concat (map (\<lambda>row. map (well_circle h' self row) [0..<nat (n_cols a)])
                       [0..<nat (n_rows a)])"
proof -
  have "circles (self_svg self) = wells h' self"
    by (simp add: circles_def init_elements [OF assms])
  then show ?thesis
    by (simp add: wells_as_grid init_params(1,2) [OF assms])
qed

lemma init_well_circle:
  assumes "PaperPlate_init is_paint h a = Inr (self, h')"
  shows "well_circle h' self row col =
           Circle (margin a + left_padding a + of_nat col * well_separation a,
                   margin a + top_padding a + of_nat row * well_separation a)
                  (well_diameter a / 2) (barrier_thickness a) (ustr ''black'')
                  (cell h' (self_fill_matrix self) row col)"
  by (simp add: well_circle_def init_params [OF assms])

lemma init_fill_at:
  assumes "PaperPlate_init is_paint h a = Inr (self, h')"
    and "row < nat (n_rows a)" and "col < nat (n_cols a)"
  shows "fill_at h' (self_fill_matrix self) row col = Inr (cell h' (self_fill_matrix self) row col)"
  using init_wells_ok [OF assms(1)] assms(2,3) init_params(1,2) [OF assms(1)]
  by (simp add: fill_at_eq wells_ok_iff)

lemma named_colour_simps [simp]:
  "named_colour (ustr ''white'')" "named_colour (ustr ''red'')" "named_colour (ustr ''blue'')"
  by (simp_all add: named_colour_def)

lemma white_init:
  assumes "well_fill a = Colour (ustr ''white'')" and "n_rows a \<le> 1114047"
  shows "\<exists>self h'. PaperPlate_init named_colour h a = Inr (self, h')"
  using init_Colour [where is_paint = named_colour and c = "ustr ''white''" and a = a and h = h]
    assms
  by simp

lemma example_args_init:
  "\<exists>self h'. PaperPlate_init named_colour empty_heap example_args = Inr (self, h')"
  by (rule white_init) (simp_all add: example_args_def)

lemma init_rects:
  assumes "PaperPlate_init is_paint h a = Inr (self, h')"
  shows "rects (self_svg self) = edges self"
  by (simp add: rects_def init_elements [OF assms])

lemma init_texts:
  assumes "PaperPlate_init is_paint h a = Inr (self, h')"
  shows "texts (self_svg self) =
           map (row_label self) [0..<nat (n_rows a)] @ map (col_label self) [0..<nat (n_cols a)]"
proof -
  have "texts (self_svg self) = labels self"
    by (simp add: texts_def init_elements [OF assms])
  then show ?thesis
    by (simp add: labels_def range_py_def init_params(1,2) [OF assms])
qed

lemma init_row_label:
  assumes "PaperPlate_init is_paint h a = Inr (self, h')"
  shows "row_label self row =
           Text [row + 65]
                (margin a + left_padding a - 3 / 4 * well_separation a,
                 margin a + top_padding a + of_nat row * well_separation a + label_font_size a / 8)
                (ustr ''middle'') (label_font_size a) (ustr ''middle'') (ustr ''Futura'')"
  by (simp add: row_label_def init_params [OF assms])

lemma init_col_label:
  assumes "PaperPlate_init is_paint h a = Inr (self, h')"
  shows "col_label self col =
           Text (str (col + 1))
                (margin a + left_padding a + of_nat col * well_separation a,
                 margin a + top_padding a - 11 / 20 * well_separation a - label_font_size a / 8)
                (ustr ''middle'') (label_font_size a) (ustr ''middle'') (ustr ''Futura'')"
  by (simp add: col_label_def init_params [OF assms])

lemma init_chr:
  assumes "PaperPlate_init is_paint h a = Inr (self, h')" and "row < nat (n_rows a)"
  shows "chr (65 + row) = Inr [65 + row]"
  using PaperPlate_init_Inr(3) [OF assms(1)] assms(2) by (simp add: chr_def)

lemma init_Colour_view:
  assumes "PaperPlate_init is_paint h a = Inr (self, h')" and "well_fill a = Colour c"
  shows "matrix_view h' (self_fill_matrix self) =
           replicate (nat (n_rows a)) (replicate (nat (n_cols a)) c)"
proof -
  from PaperPlate_init_Inr(1) [OF assms(1)] assms(2)
  have "broadcast h c (n_rows a) (n_cols a) = (self_fill_matrix self, h')"
    by (simp add: init_fill_def)
  then show ?thesis by (rule broadcast_view(1))
qed

lemma init_Colour_cell:
  assumes "PaperPlate_init is_paint h a = Inr (self, h')" and "well_fill a = Colour c"
    and "row < nat (n_rows a)" and "col < nat (n_cols a)"
  shows "cell h' (self_fill_matrix self) row col = c"
  using assms(3,4) by (simp add: cell_view init_Colour_view [OF assms(1,2)])

lemma init_Matrix_view:
  assumes "PaperPlate_init is_paint h a = Inr (self, h')" and "well_fill a = Matrix m" and "allocated h m"
  shows "matrix_view h' (self_fill_matrix self) = matrix_view h m"
proof -
  from PaperPlate_init_Inr(1) [OF assms(1)] assms(2)
  have "deepcopy h m = (self_fill_matrix self, h')"
    by (simp add: init_fill_def)
  then show ?thesis using assms(3) by (rule deepcopy_view)
qed

lemma init_view_private:
  assumes "PaperPlate_init is_paint h a = Inr (self, h')"
    and "\<forall>x. nxt h \<le> x \<and> x < nxt h' \<longrightarrow>
           rows_of h2 x = rows_of h' x \<and> mats_of h2 x = mats_of h' x"
  shows "matrix_view h2 (self_fill_matrix self) = matrix_view h' (self_fill_matrix self)"
  using init_fill_fresh [OF PaperPlate_init_Inr(1) [OF assms(1)]] assms(2)
  by (rule view_cong)

lemma fill_at_view:
  "fill_at h m row col =
     (if row < length (matrix_view h m) \<and> col < length (matrix_view h m ! row)
      then Inr (matrix_view h m ! row ! col) else Inl IndexError)"
  by (auto simp: fill_at_eq cell_ok_view cell_view)

lemma fill_at_IndexError: "fill_at h m row col = Inl IndexError \<longleftrightarrow> \<not> cell_ok h m row col"
  by (simp add: fill_at_eq)

lemma example_heap_allocated: "allocated example_heap 1"
  by (simp add: allocated_def example_heap_def)

lemma example_heap_view: "matrix_view example_heap 1 = [[ustr ''red'', ustr ''blue'']]"
  by (simp add: matrix_view_def example_heap_def)

lemma init_Colour_isl:
  assumes "well_fill a = Colour c" and "is_paint c"
  shows "PaperPlate_init is_paint h a = Inl ValueError \<longleftrightarrow> 1114047 < n_rows a"
    and "isl (PaperPlate_init is_paint h a) \<longleftrightarrow> 1114047 < n_rows a"
  using init_Colour_grid [where is_paint = is_paint and h = h, OF assms]
  by (auto simp: PaperPlate_init_eq Let_def)

lemma white_isl:
  assumes "well_fill a = Colour (ustr ''white'')"
  shows "PaperPlate_init named_colour h a = Inl ValueError \<longleftrightarrow> 1114047 < n_rows a"
    and "isl (PaperPlate_init named_colour h a) \<longleftrightarrow> 1114047 < n_rows a"
  using init_Colour_isl [where is_paint = named_colour and h = h, OF assms] by simp_all

lemma example_heap_paints:
  "fill_at example_heap 1 r c = Inr fill \<Longrightarrow> named_colour fill"
proof -
  assume f: "fill_at example_heap 1 r c = Inr fill"
  have v: "matrix_view example_heap (Suc 0) = [[ustr ''red'', ustr ''blue'']]"
    using example_heap_view by simp
  from f have "r < 1" and c: "c < 2" and fill: "fill = [ustr ''red'', ustr ''blue''] ! c"
    by (auto simp: fill_at_view v split: if_splits)
  from c have "c = 0 \<or> c = 1" by auto
  with fill show ?thesis by auto
qed

lemma example_heap_grid:
  "grid_error named_colour example_heap 1 1 1 = None"
  "grid_error named_colour example_heap 1 1 2 = None"
proof -
  have "cell_ok example_heap 1 0 col \<and> named_colour (cell example_heap 1 0 col)"
    if "col < 2" for col
  proof -
    from that have "col = 0 \<or> col = 1" by auto
    then show ?thesis
      by (auto simp: cell_ok_def cell_def example_heap_def)
  qed
  then show "grid_error named_colour example_heap 1 1 1 = None"
    "grid_error named_colour example_heap 1 1 2 = None"
    by (simp_all add: grid_error_None)
qed

section \<open>The export\<close>

lemma and_then_simps [simp]:
  "and_then (Inl e) f = Inl e"
  "and_then (Inr x) f = f x"
  by (simp_all add: and_then_def)

lemma and_then_map_sum:
  "and_then (map_sum id g r) (\<lambda>x. k) = and_then r (\<lambda>x. k)"
  by (cases r) simp_all

lemma to_pdf_inkscape_system:
  "to_pdf_inkscape (env\<lparr>system := \<lambda>c. map_sum id g (system env c)\<rparr>) self path =
     to_pdf_inkscape env self path"
  by (simp add: to_pdf_inkscape_def and_then_map_sum Let_def cong: if_cong)

section \<open>Success of the constructor\<close>

lemma has_fills_grid:
  assumes "has_fills is_paint h a" and "well_fill a = Matrix m"
  shows "allocated h m" and "grid_error is_paint h m (n_rows a) (n_cols a) = None"
proof -
  from assms show "allocated h m" by (simp add: has_fills_def)
  from assms have "\<forall>row < nat (n_rows a). \<forall>col < nat (n_cols a).
      case fill_at h m row col of Inl e \<Rightarrow> False | Inr fill \<Rightarrow> is_paint fill"
    by (simp add: has_fills_def)
  then show "grid_error is_paint h m (n_rows a) (n_cols a) = None"
    by (auto simp: grid_error_None fill_at_eq split: if_splits)
qed

lemma has_fills_init:
  assumes "has_fills is_paint h a"
  shows "n_rows a \<le> 1114047 \<Longrightarrow> \<exists>self h'. PaperPlate_init is_paint h a = Inr (self, h')"
    and "1114047 < n_rows a \<Longrightarrow> PaperPlate_init is_paint h a = Inl ValueError"
proof -
  show "\<exists>self h'. PaperPlate_init is_paint h a = Inr (self, h')" if le: "n_rows a \<le> 1114047"
  proof (cases "well_fill a")
    case (Colour c)
    with assms have "is_paint c" by (simp add: has_fills_def)
    with Colour le show ?thesis by (intro init_Colour)
  next
    case (Matrix m)
    from has_fills_grid [OF assms Matrix] Matrix le show ?thesis
      by (intro init_Matrix(3))
  qed
  show "PaperPlate_init is_paint h a = Inl ValueError" if gt: "1114047 < n_rows a"
  proof (cases "well_fill a")
    case (Colour c)
    with assms have "is_paint c" by (simp add: has_fills_def)
    with Colour gt show ?thesis by (simp add: init_Colour_isl(1))
  next
    case (Matrix m)
    from has_fills_grid [OF assms Matrix] Matrix gt show ?thesis
      by (intro init_Matrix(2)) simp_all
  qed
qed

lemma init_text_row:
  assumes "PaperPlate_init is_paint h a = Inr (self, h')" and "r < nat (n_rows a)"
  shows "texts (self_svg self) ! r =
           Text [r + 65]
                (margin a + left_padding a - 3 / 4 * well_separation a,
                 margin a + top_padding a + of_nat r * well_separation a + label_font_size a / 8)
                (ustr ''middle'') (label_font_size a) (ustr ''middle'') (ustr ''Futura'')"
  using assms(2) by (simp add: init_texts [OF assms(1)] nth_append init_row_label [OF assms(1)])

section \<open>The claims\<close>

text \<open>
  Claim C1. Every constructed plate with \<open>n_rows > 0\<close> and \<open>n_cols > 0\<close> holds exactly
  \<open>n_rows * n_cols\<close> circles, and the circle of the grid position \<open>(row, col)\<close>, the one
  at index \<open>row * n_cols + col\<close>, is centred at
  \<open>(leftX + col * well_separation, topY + row * well_separation)\<close> with
  \<open>leftX = margin + left_padding\<close> and \<open>topY = margin + top_padding\<close>, has radius
  \<open>well_diameter / 2\<close>, stroke width \<open>barrier_thickness\<close>, a black stroke, and the fill
  that the fill matrix of the object holds at \<open>[row][col]\<close>.
\<close>

theorem wells_grid:
  assumes "PaperPlate_init is_paint h a = Inr (self, h')" and "0 < n_rows a" and "0 < n_cols a"
  shows "int (length (circles (self_svg self))) = n_rows a * n_cols a \<and>
         (\<forall>row < nat (n_rows a). \<forall>col < nat (n_cols a).
            \<exists>fill. fill_at h' (self_fill_matrix self) row col = Inr fill \<and>
              circles (self_svg self) ! (row * nat (n_cols a) + col) =
                Circle (margin a + left_padding a + of_nat col * well_separation a,
                        margin a + top_padding a + of_nat row * well_separation a)
                       (well_diameter a / 2) (barrier_thickness a) (ustr ''black'') fill)"
proof (intro conjI allI impI)
  have "length (circles (self_svg self)) = nat (n_rows a) * nat (n_cols a)"
    by (simp add: init_circles [OF assms(1)] grid_length)
  with assms(2,3) show "int (length (circles (self_svg self))) = n_rows a * n_cols a"
    by simp
next
  fix row col
  assume rc: "row < nat (n_rows a)" "col < nat (n_cols a)"
  have "circles (self_svg self) ! (row * nat (n_cols a) + col) = well_circle h' self row col"
    unfolding init_circles [OF assms(1)] using rc by (rule grid_nth)
  with init_fill_at [OF assms(1) rc] init_well_circle [OF assms(1)]
  show "\<exists>fill. fill_at h' (self_fill_matrix self) row col = Inr fill \<and>
              circles (self_svg self) ! (row * nat (n_cols a) + col) =
                Circle (margin a + left_padding a + of_nat col * well_separation a,
                        margin a + top_padding a + of_nat row * well_separation a)
                       (well_diameter a / 2) (barrier_thickness a) (ustr ''black'') fill"
    by simp
qed

theorem wells_grid_witness:
  "\<exists>self h'. PaperPlate_init named_colour empty_heap example_args = Inr (self, h') \<and>
     0 < n_rows example_args \<and> 0 < n_cols example_args \<and>
     int (length (circles (self_svg self))) = 6 \<and>
     (\<exists>fill. fill_at h' (self_fill_matrix self) 1 2 = Inr fill \<and>
        circles (self_svg self) ! 5 = Circle (17, 14) 2 (1 / 2) (ustr ''black'') fill)"
proof -
  obtain self h' where i: "PaperPlate_init named_colour empty_heap example_args = Inr (self, h')"
    using example_args_init by blast
  have pos: "0 < n_rows example_args" "0 < n_cols example_args"
    by (simp_all add: example_args_def)
  from wells_grid [OF i pos]
  have len: "int (length (circles (self_svg self))) = n_rows example_args * n_cols example_args"
    and grid: "\<forall>row < nat (n_rows example_args). \<forall>col < nat (n_cols example_args).
            \<exists>fill. fill_at h' (self_fill_matrix self) row col = Inr fill \<and>
              circles (self_svg self) ! (row * nat (n_cols example_args) + col) =
                Circle (margin example_args + left_padding example_args +
                          of_nat col * well_separation example_args,
                        margin example_args + top_padding example_args +
                          of_nat row * well_separation example_args)
                       (well_diameter example_args / 2) (barrier_thickness example_args)
                       (ustr ''black'') fill"
    by blast+
  have "1 < nat (n_rows example_args)" "2 < nat (n_cols example_args)"
    by (simp_all add: example_args_def)
  with grid have "\<exists>fill. fill_at h' (self_fill_matrix self) 1 2 = Inr fill \<and>
              circles (self_svg self) ! (1 * nat (n_cols example_args) + 2) =
                Circle (margin example_args + left_padding example_args +
                          of_nat 2 * well_separation example_args,
                        margin example_args + top_padding example_args +
                          of_nat 1 * well_separation example_args)
                       (well_diameter example_args / 2) (barrier_thickness example_args)
                       (ustr ''black'') fill"
    by blast
  then have "\<exists>fill. fill_at h' (self_fill_matrix self) 1 2 = Inr fill \<and>
        circles (self_svg self) ! 5 = Circle (17, 14) 2 (1 / 2) (ustr ''black'') fill"
    by (simp add: example_args_def)
  with i pos len show ?thesis
    by (simp add: example_args_def)
qed

text \<open>
  Claim C3. In every constructed plate the label of the row \<open>r\<close> is the one character
  \<open>chr (65 + r)\<close>, a text centred on \<open>(leftX - 0.75 * well_separation,
  topY + r * well_separation + font_size / 8)\<close>, and the label of the column \<open>c\<close> is the
  string \<open>str (c + 1)\<close>, a text centred on \<open>(leftX + c * well_separation,
  topY - 0.55 * well_separation - font_size / 8)\<close>, both of font size \<open>label_font_size\<close>.
  The texts of the document are these labels: the rows first, then the columns.
\<close>

theorem labels_text_and_place:
  assumes "PaperPlate_init is_paint h a = Inr (self, h')"
  shows "length (texts (self_svg self)) = nat (n_rows a) + nat (n_cols a) \<and>
         (\<forall>r < nat (n_rows a).
            chr (65 + r) = Inr [65 + r] \<and>
            texts (self_svg self) ! r =
              Text [65 + r]
                (margin a + left_padding a - 3 / 4 * well_separation a,
                 margin a + top_padding a + of_nat r * well_separation a + label_font_size a / 8)
                (ustr ''middle'') (label_font_size a) (ustr ''middle'') (ustr ''Futura'')) \<and>
         (\<forall>c < nat (n_cols a).
            texts (self_svg self) ! (nat (n_rows a) + c) =
              Text (str (c + 1))
                (margin a + left_padding a + of_nat c * well_separation a,
                 margin a + top_padding a - 11 / 20 * well_separation a - label_font_size a / 8)
                (ustr ''middle'') (label_font_size a) (ustr ''middle'') (ustr ''Futura''))"
proof (intro conjI allI impI)
  show "length (texts (self_svg self)) = nat (n_rows a) + nat (n_cols a)"
    by (simp add: init_texts [OF assms])
next
  fix r assume r: "r < nat (n_rows a)"
  then show "chr (65 + r) = Inr [65 + r]"
    by (rule init_chr [OF assms])
  from r have "texts (self_svg self) ! r = row_label self r"
    by (simp add: init_texts [OF assms] nth_append)
  then show "texts (self_svg self) ! r =
              Text [65 + r]
                (margin a + left_padding a - 3 / 4 * well_separation a,
                 margin a + top_padding a + of_nat r * well_separation a + label_font_size a / 8)
                (ustr ''middle'') (label_font_size a) (ustr ''middle'') (ustr ''Futura'')"
    by (simp add: init_row_label [OF assms] add.commute)
next
  fix c assume c: "c < nat (n_cols a)"
  then have "texts (self_svg self) ! (nat (n_rows a) + c) = col_label self c"
    by (simp add: init_texts [OF assms] nth_append)
  then show "texts (self_svg self) ! (nat (n_rows a) + c) =
              Text (str (c + 1))
                (margin a + left_padding a + of_nat c * well_separation a,
                 margin a + top_padding a - 11 / 20 * well_separation a - label_font_size a / 8)
                (ustr ''middle'') (label_font_size a) (ustr ''middle'') (ustr ''Futura'')"
    by (simp add: init_col_label [OF assms])
qed

theorem labels_text_and_place_witness:
  "\<exists>self h'. PaperPlate_init named_colour empty_heap example_args = Inr (self, h') \<and>
     length (texts (self_svg self)) = 5 \<and>
     chr 66 = Inr (ustr ''B'') \<and>
     texts (self_svg self) ! 1 =
       Text (ustr ''B'') (13 / 4, 29 / 2) (ustr ''middle'') 4 (ustr ''middle'') (ustr ''Futura'') \<and>
     texts (self_svg self) ! 4 =
       Text (ustr ''3'') (17, 23 / 4) (ustr ''middle'') 4 (ustr ''middle'') (ustr ''Futura'')"
proof -
  obtain self h' where i: "PaperPlate_init named_colour empty_heap example_args = Inr (self, h')"
    using example_args_init by blast
  note t = labels_text_and_place [OF i]
  have r: "1 < nat (n_rows example_args)" and c: "2 < nat (n_cols example_args)"
    by (simp_all add: example_args_def)
  from t have "length (texts (self_svg self)) = nat (n_rows example_args) + nat (n_cols example_args)"
    by blast
  then have len: "length (texts (self_svg self)) = 5"
    by (simp add: example_args_def)
  from t r have "chr (65 + 1) = Inr [65 + 1] \<and>
            texts (self_svg self) ! 1 =
              Text [65 + 1]
                (margin example_args + left_padding example_args - 3 / 4 * well_separation example_args,
                 margin example_args + top_padding example_args +
                   of_nat 1 * well_separation example_args + label_font_size example_args / 8)
                (ustr ''middle'') (label_font_size example_args) (ustr ''middle'') (ustr ''Futura'')"
    by blast
  then have row: "chr 66 = Inr (ustr ''B'') \<and> texts (self_svg self) ! 1 =
       Text (ustr ''B'') (13 / 4, 29 / 2) (ustr ''middle'') 4 (ustr ''middle'') (ustr ''Futura'')"
    by (simp add: example_args_def ustr_def)
  from t c have "texts (self_svg self) ! (nat (n_rows example_args) + 2) =
              Text (str (2 + 1))
                (margin example_args + left_padding example_args +
                   of_nat 2 * well_separation example_args,
                 margin example_args + top_padding example_args -
                   11 / 20 * well_separation example_args - label_font_size example_args / 8)
                (ustr ''middle'') (label_font_size example_args) (ustr ''middle'') (ustr ''Futura'')"
    by blast
  then have col: "texts (self_svg self) ! 4 =
       Text (ustr ''3'') (17, 23 / 4) (ustr ''middle'') 4 (ustr ''middle'') (ustr ''Futura'')"
    by (simp add: example_args_def ustr_def str.simps)
  from i len row col show ?thesis by blast
qed

text \<open>
  Claim C4, as stated, fails: the constructor validates nothing. A matrix of 1 by 2
  entries for a grid of 1 by 1 wells is accepted, and so are \<open>n_rows = 0\<close> and
  \<open>n_cols = - 1\<close>.
\<close>

theorem no_layout_validation:
  "\<not> isl (PaperPlate_init named_colour example_heap
           (example_args\<lparr>n_rows := 1, n_cols := 1, well_fill := Matrix 1\<rparr>)) \<and>
   matrix_view example_heap 1 = [[ustr ''red'', ustr ''blue'']] \<and>
   \<not> isl (PaperPlate_init named_colour empty_heap (example_args\<lparr>n_rows := 0\<rparr>)) \<and>
   \<not> isl (PaperPlate_init named_colour empty_heap (example_args\<lparr>n_cols := - 1\<rparr>))"
proof (intro conjI)
  let ?a = "example_args\<lparr>n_rows := 1, n_cols := 1, well_fill := Matrix 1\<rparr>"
  have w: "well_fill ?a = Matrix 1" by simp
  have ok: "grid_error named_colour example_heap 1 (n_rows ?a) (n_cols ?a) = None"
    using example_heap_grid by (simp add: example_args_def)
  have "n_rows ?a \<le> 1114047"
    by (simp add: example_args_def)
  with init_Matrix(3) [OF w example_heap_allocated ok]
  show "\<not> isl (PaperPlate_init named_colour example_heap ?a)"
    by auto
  show "matrix_view example_heap 1 = [[ustr ''red'', ustr ''blue'']]"
    by (rule example_heap_view)
  show "\<not> isl (PaperPlate_init named_colour empty_heap (example_args\<lparr>n_rows := 0\<rparr>))"
    by (simp add: white_isl(2) example_args_def)
  show "\<not> isl (PaperPlate_init named_colour empty_heap (example_args\<lparr>n_cols := - 1\<rparr>))"
    by (simp add: white_isl(2) example_args_def)
qed

text \<open>
  Claim C4, amended. A construction with a fill matrix that has no entry at some position
  of the grid (\<open>row < n_rows\<close>, \<open>col < n_cols\<close>) fails, whatever the library accepts as a
  fill: the constructor returns no object, hence no document. The error is
  \<^verbatim>\<open>IndexError\<close> when every entry of the matrix is a fill that the library accepts.
\<close>

theorem missing_fill_fails:
  assumes "well_fill a = Matrix m" and "allocated h m"
    and "row < nat (n_rows a)" and "col < nat (n_cols a)"
    and "fill_at h m row col = Inl IndexError"
  shows "isl (PaperPlate_init is_paint h a) \<and>
         ((\<forall>r c fill. fill_at h m r c = Inr fill \<longrightarrow> is_paint fill) \<longrightarrow>
            PaperPlate_init is_paint h a = Inl IndexError)"
proof -
  from assms(5) have "\<not> cell_ok h m row col"
    by (simp add: fill_at_IndexError)
  with assms(3,4) have "grid_error is_paint h m (n_rows a) (n_cols a) \<noteq> None"
    by (auto simp: grid_error_None)
  then obtain e where e: "grid_error is_paint h m (n_rows a) (n_cols a) = Some e"
    by blast
  from init_Matrix(1) [OF assms(1,2) e]
  have i: "PaperPlate_init is_paint h a = Inl e" .
  have "e = IndexError" if paints: "\<forall>r c fill. fill_at h m r c = Inr fill \<longrightarrow> is_paint fill"
  proof -
    from grid_error_Some [OF e]
    obtain r c where w: "well_error is_paint h m r c = Some e" by blast
    show ?thesis
    proof (cases "fill_at h m r c")
      case (Inl e')
      with w have "e' = e" by (simp add: well_error_fill_at)
      with Inl show ?thesis by (simp add: fill_at_eq split: if_splits)
    next
      case (Inr fill)
      with paints have "is_paint fill" by blast
      with Inr w show ?thesis by (simp add: well_error_fill_at)
    qed
  qed
  with i show ?thesis by simp
qed

theorem missing_fill_fails_witness:
  "well_fill (example_args\<lparr>well_fill := Matrix 1\<rparr>) = Matrix 1 \<and>
   allocated example_heap 1 \<and>
   fill_at example_heap 1 0 2 = Inl IndexError \<and>
   fill_at example_heap 1 0 0 = Inr (ustr ''red'') \<and> named_colour (ustr ''red'') \<and>
   fill_at example_heap 1 0 1 = Inr (ustr ''blue'') \<and> named_colour (ustr ''blue'') \<and>
   isl (PaperPlate_init named_colour example_heap (example_args\<lparr>well_fill := Matrix 1\<rparr>)) \<and>
   PaperPlate_init named_colour example_heap (example_args\<lparr>well_fill := Matrix 1\<rparr>) =
     Inl IndexError"
proof -
  let ?a = "example_args\<lparr>well_fill := Matrix 1\<rparr>"
  have w: "well_fill ?a = Matrix 1" by simp
  have f: "fill_at example_heap 1 0 2 = Inl IndexError"
    and f0: "fill_at example_heap 1 0 0 = Inr (ustr ''red'')"
    and f1: "fill_at example_heap 1 0 1 = Inr (ustr ''blue'')"
    by (simp_all add: fill_at_def getitem_def example_heap_def)
  have rc: "0 < nat (n_rows ?a)" "2 < nat (n_cols ?a)"
    by (simp_all add: example_args_def)
  have paints: "\<forall>r c fill. fill_at example_heap 1 r c = Inr fill \<longrightarrow> named_colour fill"
    using example_heap_paints by blast
  from missing_fill_fails [OF w example_heap_allocated rc f, of named_colour] paints
  have "isl (PaperPlate_init named_colour example_heap ?a)"
    "PaperPlate_init named_colour example_heap ?a = Inl IndexError"
    by blast+
  with w example_heap_allocated f f0 f1 show ?thesis by simp
qed

text \<open>
  Claim C5. Every constructed plate holds exactly two rectangles: the outer one at
  \<open>(margin, margin)\<close> of size \<open>(plate_length, plate_width)\<close> with corner radius
  \<open>edge_corner_radius\<close>, stroke width \<open>edge_thickness\<close>, a white fill and a black stroke; and
  the inner one at \<open>(margin + edges_distance, margin + edges_distance)\<close> of size
  \<open>(plate_length - 2 * edges_distance, plate_width - 2 * edges_distance)\<close> with corner radius
  \<open>edge_corner_radius - edges_distance\<close> and the same stroke and fill.
\<close>

theorem edge_rectangles:
  assumes "PaperPlate_init is_paint h a = Inr (self, h')"
  shows "rects (self_svg self) =
           [Rect (margin a, margin a) (plate_length a, plate_width a)
                 (edge_corner_radius a) (edge_thickness a) (ustr ''black'') (ustr ''white''),
            Rect (margin a + edges_distance a, margin a + edges_distance a)
                 (plate_length a - 2 * edges_distance a, plate_width a - 2 * edges_distance a)
                 (edge_corner_radius a - edges_distance a) (edge_thickness a)
                 (ustr ''black'') (ustr ''white'')]"
  by (simp add: init_rects [OF assms] edges_def init_params [OF assms])

theorem edge_rectangles_witness:
  "\<exists>self h'. PaperPlate_init named_colour empty_heap example_args = Inr (self, h') \<and>
     rects (self_svg self) =
       [Rect (2, 2) (40, 30) 3 (3 / 4) (ustr ''black'') (ustr ''white''),
        Rect (3, 3) (38, 28) 2 (3 / 4) (ustr ''black'') (ustr ''white'')]"
proof -
  obtain self h' where i: "PaperPlate_init named_colour empty_heap example_args = Inr (self, h')"
    using example_args_init by blast
  from edge_rectangles [OF i] have "rects (self_svg self) =
       [Rect (2, 2) (40, 30) 3 (3 / 4) (ustr ''black'') (ustr ''white''),
        Rect (3, 3) (38, 28) 2 (3 / 4) (ustr ''black'') (ustr ''white'')]"
    by (simp add: example_args_def)
  with i show ?thesis by blast
qed

text \<open>
  Claim C6. The size of the document of every constructed plate is
  \<open>(plate_length + 2 * margin, plate_width + 2 * margin)\<close> in millimetres, and its view box
  has the same width and height in user units, so that a user unit is a millimetre. The
  number of rows and of columns has no part in it: a plate constructed from the same
  arguments with other \<open>n_rows\<close> and \<open>n_cols\<close> has the same size and view box.
\<close>

theorem document_viewport:
  assumes "PaperPlate_init is_paint h a = Inr (self, h')"
    and "PaperPlate_init is_paint h2 (a\<lparr>n_rows := r, n_cols := c\<rparr>) = Inr (self2, h2')"
  shows "size_dim (self_svg self) =
           (Dim (plate_length a + 2 * margin a) (ustr ''mm''),
            Dim (plate_width a + 2 * margin a) (ustr ''mm'')) \<and>
         viewBox (self_svg self) =
           Some (0, 0, plate_length a + 2 * margin a, plate_width a + 2 * margin a) \<and>
         size_dim (self_svg self2) = size_dim (self_svg self) \<and>
         viewBox (self_svg self2) = viewBox (self_svg self)"
  by (simp add: init_params(15,16) [OF assms(1)] init_params(15,16) [OF assms(2)])

theorem document_viewport_witness:
  "\<exists>self h' self2 h2'.
     PaperPlate_init named_colour empty_heap example_args = Inr (self, h') \<and>
     PaperPlate_init named_colour empty_heap (example_args\<lparr>n_rows := 7, n_cols := 1\<rparr>) = Inr (self2, h2') \<and>
     size_dim (self_svg self) = (Dim 44 (ustr ''mm''), Dim 34 (ustr ''mm'')) \<and>
     viewBox (self_svg self) = Some (0, 0, 44, 34) \<and>
     size_dim (self_svg self2) = size_dim (self_svg self) \<and>
     viewBox (self_svg self2) = viewBox (self_svg self)"
proof -
  obtain self h' where i: "PaperPlate_init named_colour empty_heap example_args = Inr (self, h')"
    using example_args_init by blast
  obtain self2 h2' where
    i2: "PaperPlate_init named_colour empty_heap (example_args\<lparr>n_rows := 7, n_cols := 1\<rparr>) = Inr (self2, h2')"
    using white_init [of "example_args\<lparr>n_rows := 7, n_cols := 1\<rparr>" empty_heap]
    by (auto simp: example_args_def)
  from document_viewport [OF i i2]
  have "size_dim (self_svg self) = (Dim 44 (ustr ''mm''), Dim 34 (ustr ''mm'')) \<and>
     viewBox (self_svg self) = Some (0, 0, 44, 34) \<and>
     size_dim (self_svg self2) = size_dim (self_svg self) \<and>
     viewBox (self_svg self2) = viewBox (self_svg self)"
    by (simp add: example_args_def)
  with i i2 show ?thesis by blast
qed

text \<open>
  Claim C7. A single colour is broadcast: every cell of the \<open>n_rows\<close> by \<open>n_cols\<close> fill
  matrix of the constructed plate is that string. An explicit matrix is reproduced element
  for element. The matrix of the plate is made of objects allocated by the constructor,
  so whatever is done afterwards to the objects that existed before the construction,
  the caller's matrix and its rows among them, and whatever is allocated afterwards,
  neither the matrix of the plate nor any \<^verbatim>\<open>_fill_matrix[row][col]\<close> changes (the fills
  already emitted are strings in the document, which holds no reference to the store).
\<close>

theorem fill_matrix_copy:
  assumes "PaperPlate_init is_paint h a = Inr (self, h')"
  shows "(\<forall>c. well_fill a = Colour c \<longrightarrow>
            matrix_view h' (self_fill_matrix self) =
              replicate (nat (n_rows a)) (replicate (nat (n_cols a)) c)) \<and>
         (\<forall>m. well_fill a = Matrix m \<and> allocated h m \<longrightarrow>
            matrix_view h' (self_fill_matrix self) = matrix_view h m) \<and>
         (\<forall>h2. (\<forall>x. nxt h \<le> x \<and> x < nxt h' \<longrightarrow>
                     rows_of h2 x = rows_of h' x \<and> mats_of h2 x = mats_of h' x) \<longrightarrow>
            matrix_view h2 (self_fill_matrix self) = matrix_view h' (self_fill_matrix self) \<and>
            (\<forall>row col. fill_at h2 (self_fill_matrix self) row col =
                        fill_at h' (self_fill_matrix self) row col))"
proof (intro conjI allI impI)
  fix c assume "well_fill a = Colour c"
  with assms show "matrix_view h' (self_fill_matrix self) =
              replicate (nat (n_rows a)) (replicate (nat (n_cols a)) c)"
    by (rule init_Colour_view)
next
  fix m assume "well_fill a = Matrix m \<and> allocated h m"
  with assms show "matrix_view h' (self_fill_matrix self) = matrix_view h m"
    by (simp add: init_Matrix_view)
next
  fix h2 :: heap
  assume "\<forall>x. nxt h \<le> x \<and> x < nxt h' \<longrightarrow>
            rows_of h2 x = rows_of h' x \<and> mats_of h2 x = mats_of h' x"
  with assms show v: "matrix_view h2 (self_fill_matrix self) = matrix_view h' (self_fill_matrix self)"
    by (rule init_view_private)
  fix row col
  show "fill_at h2 (self_fill_matrix self) row col = fill_at h' (self_fill_matrix self) row col"
    by (simp add: fill_at_view v)
qed

theorem fill_matrix_copy_witness:
  "(\<exists>self h'. PaperPlate_init named_colour empty_heap example_args = Inr (self, h') \<and>
      well_fill example_args = Colour (ustr ''white'') \<and>
      matrix_view h' (self_fill_matrix self) =
        [[ustr ''white'', ustr ''white'', ustr ''white''],
         [ustr ''white'', ustr ''white'', ustr ''white'']]) \<and>
   (\<exists>self h'.
      PaperPlate_init named_colour example_heap (example_args\<lparr>n_rows := 1, n_cols := 2, well_fill := Matrix 1\<rparr>) =
        Inr (self, h') \<and>
      allocated example_heap 1 \<and>
      matrix_view h' (self_fill_matrix self) = [[ustr ''red'', ustr ''blue'']] \<and>
      matrix_view (h'\<lparr>rows_of := (rows_of h')(0 := [ustr ''green''], nxt h' := [ustr ''black'']),
                       mats_of := (mats_of h')(1 := [0, nxt h']),
                       nxt := Suc (nxt h')\<rparr>) 1 =
        [[ustr ''green''], [ustr ''black'']] \<and>
      matrix_view (h'\<lparr>rows_of := (rows_of h')(0 := [ustr ''green''], nxt h' := [ustr ''black'']),
                       mats_of := (mats_of h')(1 := [0, nxt h']),
                       nxt := Suc (nxt h')\<rparr>) (self_fill_matrix self) =
        [[ustr ''red'', ustr ''blue'']])"
proof (rule conjI)
  obtain self h' where i: "PaperPlate_init named_colour empty_heap example_args = Inr (self, h')"
    using example_args_init by blast
  have w: "well_fill example_args = Colour (ustr ''white'')"
    by (simp add: example_args_def)
  from fill_matrix_copy [OF i] w
  have "matrix_view h' (self_fill_matrix self) =
          replicate (nat (n_rows example_args)) (replicate (nat (n_cols example_args)) (ustr ''white''))"
    by blast
  then have "matrix_view h' (self_fill_matrix self) =
        [[ustr ''white'', ustr ''white'', ustr ''white''],
         [ustr ''white'', ustr ''white'', ustr ''white'']]"
    by (simp add: example_args_def numeral_3_eq_3 numeral_2_eq_2)
  with i w show "\<exists>self h'. PaperPlate_init named_colour empty_heap example_args = Inr (self, h') \<and>
      well_fill example_args = Colour (ustr ''white'') \<and>
      matrix_view h' (self_fill_matrix self) =
        [[ustr ''white'', ustr ''white'', ustr ''white''],
         [ustr ''white'', ustr ''white'', ustr ''white'']]"
    by blast
next
  let ?a = "example_args\<lparr>n_rows := 1, n_cols := 2, well_fill := Matrix 1\<rparr>"
  have w: "well_fill ?a = Matrix 1" by simp
  have ok: "grid_error named_colour example_heap 1 (n_rows ?a) (n_cols ?a) = None"
    using example_heap_grid by (simp add: example_args_def)
  have "n_rows ?a \<le> 1114047"
    by (simp add: example_args_def)
  with init_Matrix(3) [OF w example_heap_allocated ok]
  obtain self h' where i: "PaperPlate_init named_colour example_heap ?a = Inr (self, h')"
    by blast
  let ?h2 = "h'\<lparr>rows_of := (rows_of h')(0 := [ustr ''green''], nxt h' := [ustr ''black'']),
                mats_of := (mats_of h')(1 := [0, nxt h']),
                nxt := Suc (nxt h')\<rparr>"
  have agree: "\<forall>x. nxt example_heap \<le> x \<and> x < nxt h' \<longrightarrow>
                 rows_of ?h2 x = rows_of h' x \<and> mats_of ?h2 x = mats_of h' x"
    by (simp add: example_heap_def)
  from fill_matrix_copy [OF i] w example_heap_allocated
  have v: "matrix_view h' (self_fill_matrix self) = matrix_view example_heap 1"
    by blast
  from fill_matrix_copy [OF i] agree
  have v2: "matrix_view ?h2 (self_fill_matrix self) = matrix_view h' (self_fill_matrix self)"
    by blast
  from PaperPlate_init_Inr(1) [OF i] have "nxt example_heap \<le> nxt h'"
    using init_fill_fresh(1,3) [of example_heap ?a "self_fill_matrix self" h'] by simp
  then have "nxt h' \<noteq> 0" by (simp add: example_heap_def)
  then have own: "matrix_view ?h2 1 = [[ustr ''green''], [ustr ''black'']]"
    by (simp add: matrix_view_def)
  from i example_heap_allocated v v2 own
  show "\<exists>self h'.
      PaperPlate_init named_colour example_heap ?a = Inr (self, h') \<and>
      allocated example_heap 1 \<and>
      matrix_view h' (self_fill_matrix self) = [[ustr ''red'', ustr ''blue'']] \<and>
      matrix_view (h'\<lparr>rows_of := (rows_of h')(0 := [ustr ''green''], nxt h' := [ustr ''black'']),
                       mats_of := (mats_of h')(1 := [0, nxt h']),
                       nxt := Suc (nxt h')\<rparr>) 1 =
        [[ustr ''green''], [ustr ''black'']] \<and>
      matrix_view (h'\<lparr>rows_of := (rows_of h')(0 := [ustr ''green''], nxt h' := [ustr ''black'']),
                       mats_of := (mats_of h')(1 := [0, nxt h']),
                       nxt := Suc (nxt h')\<rparr>) (self_fill_matrix self) =
        [[ustr ''red'', ustr ''blue'']]"
    by (simp add: example_heap_view [unfolded One_nat_def])
qed

text \<open>
  Claim C8, as stated, fails: the conversion exits with status 1 and the export returns
  normally.
\<close>

theorem export_returns_on_failed_conversion:
  "to_pdf_inkscape (tmp_env 1) example_plate (ustr ''plate.pdf'') =
     Inr [Makedirs (ustr ''/tmp''),
          Saveas (self_svg example_plate) (ustr ''/tmp/plate.svg''),
          System (ustr ''inkscape -f /tmp/plate.svg -A /tmp/plate.pdf'')] \<and>
   system (tmp_env 1) (ustr ''inkscape -f /tmp/plate.svg -A /tmp/plate.pdf'') = Inr 1"
  by (simp add: to_pdf_inkscape_def tmp_env_def ustr_def Let_def)

text \<open>
  Claim C8, amended. The export never looks at the exit status of the conversion: its
  outcome, the normal return or the error raised, is the same whatever exit status
  \<^verbatim>\<open>os.system\<close> returns; \<open>change\<close> is any change of the exit statuses.
\<close>

theorem export_ignores_exit_status:
  "to_pdf_inkscape (env\<lparr>system := \<lambda>c. map_sum id change (system env c)\<rparr>) self path =
     to_pdf_inkscape env self path"
  by (rule to_pdf_inkscape_system)

theorem export_ignores_exit_status_witness:
  "system ((tmp_env 1)\<lparr>system := \<lambda>c. map_sum id (\<lambda>status. 0) (system (tmp_env 1) c)\<rparr>)
     (ustr ''inkscape -f /tmp/plate.svg -A /tmp/plate.pdf'') = Inr 0 \<and>
   to_pdf_inkscape
     ((tmp_env 1)\<lparr>system := \<lambda>c. map_sum id (\<lambda>status. 0) (system (tmp_env 1) c)\<rparr>)
     example_plate (ustr ''plate.pdf'') =
   to_pdf_inkscape (tmp_env 1) example_plate (ustr ''plate.pdf'')"
proof -
  have "system ((tmp_env 1)\<lparr>system := \<lambda>c. map_sum id (\<lambda>status. 0) (system (tmp_env 1) c)\<rparr>)
     (ustr ''inkscape -f /tmp/plate.svg -A /tmp/plate.pdf'') = Inr 0"
    by (simp add: tmp_env_def)
  with export_ignores_exit_status
    [where env = "tmp_env 1" and change = "\<lambda>status. 0" and self = example_plate and
      path = "ustr ''plate.pdf''"]
  show ?thesis by simp
qed

text \<open>
  Claim C9. The document of every constructed plate is, in this order: the two edge
  rectangles, the circles of the wells row after row (the columns of a row in order),
  the labels of the rows, the labels of the columns.
\<close>

theorem document_order:
  assumes "PaperPlate_init is_paint h a = Inr (self, h')"
  shows "elements (self_svg self) =
           edges self @
           concat (map (\<lambda>row. map (\<lambda>col. well_circle h' self row col) [0..<nat (n_cols a)])
                       [0..<nat (n_rows a)]) @
           (map (row_label self) [0..<nat (n_rows a)] @
            map (col_label self) [0..<nat (n_cols a)]) \<and>
         rects (self_svg self) = edges self \<and>
         circles (self_svg self) =
           concat (map (\<lambda>row. map (\<lambda>col. well_circle h' self row col) [0..<nat (n_cols a)])
                       [0..<nat (n_rows a)]) \<and>
         texts (self_svg self) =
           map (row_label self) [0..<nat (n_rows a)] @ map (col_label self) [0..<nat (n_cols a)]"
proof -
  have "elements (self_svg self) = edges self @ wells h' self @ labels self"
    by (rule init_elements [OF assms])
  then have "elements (self_svg self) =
           edges self @
           concat (map (\<lambda>row. map (\<lambda>col. well_circle h' self row col) [0..<nat (n_cols a)])
                       [0..<nat (n_rows a)]) @
           (map (row_label self) [0..<nat (n_rows a)] @
            map (col_label self) [0..<nat (n_cols a)])"
    by (simp add: wells_as_grid labels_def range_py_def init_params(1,2) [OF assms])
  with init_rects [OF assms] init_circles [OF assms] init_texts [OF assms]
  show ?thesis by simp
qed

theorem document_order_witness:
  "\<exists>self h'. PaperPlate_init named_colour empty_heap (example_args\<lparr>n_rows := 1, n_cols := 2\<rparr>) = Inr (self, h') \<and>
     elements (self_svg self) =
       [Rect (2, 2) (40, 30) 3 (3 / 4) (ustr ''black'') (ustr ''white''),
        Rect (3, 3) (38, 28) 2 (3 / 4) (ustr ''black'') (ustr ''white''),
        Circle (7, 9) 2 (1 / 2) (ustr ''black'') (ustr ''white''),
        Circle (12, 9) 2 (1 / 2) (ustr ''black'') (ustr ''white''),
        Text (ustr ''A'') (13 / 4, 19 / 2) (ustr ''middle'') 4 (ustr ''middle'') (ustr ''Futura''),
        Text (ustr ''1'') (7, 23 / 4) (ustr ''middle'') 4 (ustr ''middle'') (ustr ''Futura''),
        Text (ustr ''2'') (12, 23 / 4) (ustr ''middle'') 4 (ustr ''middle'') (ustr ''Futura'')]"
proof -
  let ?a = "example_args\<lparr>n_rows := 1, n_cols := 2\<rparr>"
  obtain self h' where i: "PaperPlate_init named_colour empty_heap ?a = Inr (self, h')"
    using white_init [of ?a empty_heap]
    by (auto simp: example_args_def)
  have n: "[0..<nat (n_rows ?a)] = [0]" "[0..<nat (n_cols ?a)] = [0, 1]"
    by (simp_all add: example_args_def upt_rec)
  from document_order [OF i]
  have "elements (self_svg self) =
           edges self @
           concat (map (\<lambda>row. map (\<lambda>col. well_circle h' self row col) [0..<nat (n_cols ?a)])
                       [0..<nat (n_rows ?a)]) @
           (map (row_label self) [0..<nat (n_rows ?a)] @
            map (col_label self) [0..<nat (n_cols ?a)])"
    by blast
  then have "elements (self_svg self) =
       [Rect (2, 2) (40, 30) 3 (3 / 4) (ustr ''black'') (ustr ''white''),
        Rect (3, 3) (38, 28) 2 (3 / 4) (ustr ''black'') (ustr ''white''),
        Circle (7, 9) 2 (1 / 2) (ustr ''black'') (ustr ''white''),
        Circle (12, 9) 2 (1 / 2) (ustr ''black'') (ustr ''white''),
        Text (ustr ''A'') (13 / 4, 19 / 2) (ustr ''middle'') 4 (ustr ''middle'') (ustr ''Futura''),
        Text (ustr ''1'') (7, 23 / 4) (ustr ''middle'') 4 (ustr ''middle'') (ustr ''Futura''),
        Text (ustr ''2'') (12, 23 / 4) (ustr ''middle'') 4 (ustr ''middle'') (ustr ''Futura'')]"
    unfolding n
    by (simp add: edges_def init_row_label [OF i] init_col_label [OF i] init_params [OF i]
        init_well_circle [OF i] init_Colour_cell [OF i, of "ustr ''white''"]
        example_args_def ustr_def str.simps)
  with i show ?thesis by blast
qed

text \<open>
  Claim C10, as stated, fails twice. With \<open>n_rows = 1114048\<close> the construction fails:
  \<^verbatim>\<open>chr\<close> raises \<^verbatim>\<open>ValueError\<close> at the last row. And a label past \<open>Z\<close> need not be
  non-alphabetic: in a plate of 33 rows the label of the row 32 is the letter \<open>a\<close>.
\<close>

theorem row_label_limits:
  "PaperPlate_init named_colour empty_heap (example_args\<lparr>n_rows := 1114048\<rparr>) = Inl ValueError \<and>
   \<not> isl (PaperPlate_init named_colour empty_heap (example_args\<lparr>n_rows := 33\<rparr>)) \<and>
   texts (self_svg (fst (projr (PaperPlate_init named_colour empty_heap (example_args\<lparr>n_rows := 33\<rparr>))))) ! 32 =
     Text (ustr ''a'') (13 / 4, 339 / 2) (ustr ''middle'') 4 (ustr ''middle'') (ustr ''Futura'')"
proof (intro conjI)
  show "PaperPlate_init named_colour empty_heap (example_args\<lparr>n_rows := 1114048\<rparr>) = Inl ValueError"
    by (simp add: white_isl(1) example_args_def)
  let ?a = "example_args\<lparr>n_rows := 33\<rparr>"
  obtain self h' where i: "PaperPlate_init named_colour empty_heap ?a = Inr (self, h')"
    using white_init [of ?a empty_heap]
    by (auto simp: example_args_def)
  then show "\<not> isl (PaperPlate_init named_colour empty_heap ?a)" by simp
  have "32 < nat (n_rows ?a)" by (simp add: example_args_def)
  from init_text_row [OF i this] have "texts (self_svg self) ! 32 =
     Text (ustr ''a'') (13 / 4, 339 / 2) (ustr ''middle'') 4 (ustr ''middle'') (ustr ''Futura'')"
    by (simp add: example_args_def ustr_def)
  moreover from i have "fst (projr (PaperPlate_init named_colour empty_heap ?a)) = self"
    by simp
  ultimately show
    "texts (self_svg (fst (projr (PaperPlate_init named_colour empty_heap ?a)))) ! 32 =
     Text (ustr ''a'') (13 / 4, 339 / 2) (ustr ''middle'') 4 (ustr ''middle'') (ustr ''Futura'')"
    by simp
qed

text \<open>
  Claim C10, amended. When every well has a fill that the library accepts and
  \<open>26 < n_rows\<close>: if
  \<open>n_rows \<le> 1114047\<close> the construction succeeds, and the label of every row \<open>r \<ge> 26\<close> is
  the single character of code point \<open>r + 65\<close>, past \<open>Z\<close> (code point 90), the row 26
  being labelled \<open>[\<close>; nothing wraps, doubles or is rejected. If \<open>n_rows > 1114047\<close> the
  construction fails with \<^verbatim>\<open>ValueError\<close>.
\<close>

theorem rows_past_Z:
  assumes "has_fills is_paint h a" and "26 < n_rows a"
  shows "(n_rows a \<le> 1114047 \<longrightarrow>
           (\<exists>self h'. PaperPlate_init is_paint h a = Inr (self, h') \<and>
              (\<forall>r. 26 \<le> r \<and> r < nat (n_rows a) \<longrightarrow>
                 chr (r + 65) = Inr [r + 65] \<and> 90 < r + 65 \<and>
                 texts (self_svg self) ! r =
                   Text [r + 65]
                     (margin a + left_padding a - 3 / 4 * well_separation a,
                      margin a + top_padding a + of_nat r * well_separation a +
                        label_font_size a / 8)
                     (ustr ''middle'') (label_font_size a) (ustr ''middle'') (ustr ''Futura'')) \<and>
              texts (self_svg self) ! 26 =
                Text (ustr ''['')
                  (margin a + left_padding a - 3 / 4 * well_separation a,
                   margin a + top_padding a + 26 * well_separation a + label_font_size a / 8)
                  (ustr ''middle'') (label_font_size a) (ustr ''middle'') (ustr ''Futura''))) \<and>
         (1114047 < n_rows a \<longrightarrow> PaperPlate_init is_paint h a = Inl ValueError)"
proof (intro conjI impI)
  assume le: "n_rows a \<le> 1114047"
  with has_fills_init(1) [OF assms(1)]
  obtain self h' where i: "PaperPlate_init is_paint h a = Inr (self, h')" by blast
  have rows: "\<forall>r. 26 \<le> r \<and> r < nat (n_rows a) \<longrightarrow>
                 chr (r + 65) = Inr [r + 65] \<and> 90 < r + 65 \<and>
                 texts (self_svg self) ! r =
                   Text [r + 65]
                     (margin a + left_padding a - 3 / 4 * well_separation a,
                      margin a + top_padding a + of_nat r * well_separation a +
                        label_font_size a / 8)
                     (ustr ''middle'') (label_font_size a) (ustr ''middle'') (ustr ''Futura'')"
  proof (intro allI impI)
    fix r assume r: "26 \<le> r \<and> r < nat (n_rows a)"
    then have "r < nat (n_rows a)" by simp
    from init_text_row [OF i this] init_chr [OF i this] r
    show "chr (r + 65) = Inr [r + 65] \<and> 90 < r + 65 \<and>
                 texts (self_svg self) ! r =
                   Text [r + 65]
                     (margin a + left_padding a - 3 / 4 * well_separation a,
                      margin a + top_padding a + of_nat r * well_separation a +
                        label_font_size a / 8)
                     (ustr ''middle'') (label_font_size a) (ustr ''middle'') (ustr ''Futura'')"
      by (simp add: add.commute)
  qed
  from assms(2) have "26 < nat (n_rows a)" by simp
  from init_text_row [OF i this]
  have "texts (self_svg self) ! 26 =
                Text (ustr ''['')
                  (margin a + left_padding a - 3 / 4 * well_separation a,
                   margin a + top_padding a + 26 * well_separation a + label_font_size a / 8)
                  (ustr ''middle'') (label_font_size a) (ustr ''middle'') (ustr ''Futura'')"
    by (simp add: ustr_def)
  with i rows show "\<exists>self h'. PaperPlate_init is_paint h a = Inr (self, h') \<and>
              (\<forall>r. 26 \<le> r \<and> r < nat (n_rows a) \<longrightarrow>
                 chr (r + 65) = Inr [r + 65] \<and> 90 < r + 65 \<and>
                 texts (self_svg self) ! r =
                   Text [r + 65]
                     (margin a + left_padding a - 3 / 4 * well_separation a,
                      margin a + top_padding a + of_nat r * well_separation a +
                        label_font_size a / 8)
                     (ustr ''middle'') (label_font_size a) (ustr ''middle'') (ustr ''Futura'')) \<and>
              texts (self_svg self) ! 26 =
                Text (ustr ''['')
                  (margin a + left_padding a - 3 / 4 * well_separation a,
                   margin a + top_padding a + 26 * well_separation a + label_font_size a / 8)
                  (ustr ''middle'') (label_font_size a) (ustr ''middle'') (ustr ''Futura'')"
    by blast
next
  assume "1114047 < n_rows a"
  then show "PaperPlate_init is_paint h a = Inl ValueError"
    by (rule has_fills_init(2) [OF assms(1)])
qed

theorem rows_past_Z_witness:
  "has_fills named_colour empty_heap (example_args\<lparr>n_rows := 28\<rparr>) \<and>
   (\<exists>self h'. PaperPlate_init named_colour empty_heap (example_args\<lparr>n_rows := 28\<rparr>) = Inr (self, h') \<and>
      chr 92 = Inr [92] \<and>
      texts (self_svg self) ! 27 =
        Text [92] (13 / 4, 289 / 2) (ustr ''middle'') 4 (ustr ''middle'') (ustr ''Futura'') \<and>
      texts (self_svg self) ! 26 =
        Text (ustr ''['') (13 / 4, 279 / 2) (ustr ''middle'') 4 (ustr ''middle'') (ustr ''Futura'')) \<and>
   has_fills named_colour empty_heap (example_args\<lparr>n_rows := 1114048\<rparr>) \<and>
   PaperPlate_init named_colour empty_heap (example_args\<lparr>n_rows := 1114048\<rparr>) = Inl ValueError"
proof -
  let ?a = "example_args\<lparr>n_rows := 28\<rparr>" and ?b = "example_args\<lparr>n_rows := 1114048\<rparr>"
  have fa: "has_fills named_colour empty_heap ?a" and fb: "has_fills named_colour empty_heap ?b"
    by (simp_all add: has_fills_def example_args_def)
  have na: "26 < n_rows ?a" "n_rows ?a \<le> 1114047" and nb: "26 < n_rows ?b" "1114047 < n_rows ?b"
    by (simp_all add: example_args_def)
  from rows_past_Z [OF fa na(1)] na(2)
  obtain self h' where i: "PaperPlate_init named_colour empty_heap ?a = Inr (self, h')"
    and rows: "\<forall>r. 26 \<le> r \<and> r < nat (n_rows ?a) \<longrightarrow>
                 chr (r + 65) = Inr [r + 65] \<and> 90 < r + 65 \<and>
                 texts (self_svg self) ! r =
                   Text [r + 65]
                     (margin ?a + left_padding ?a - 3 / 4 * well_separation ?a,
                      margin ?a + top_padding ?a + of_nat r * well_separation ?a +
                        label_font_size ?a / 8)
                     (ustr ''middle'') (label_font_size ?a) (ustr ''middle'') (ustr ''Futura'')"
    and r26: "texts (self_svg self) ! 26 =
                Text (ustr ''['')
                  (margin ?a + left_padding ?a - 3 / 4 * well_separation ?a,
                   margin ?a + top_padding ?a + 26 * well_separation ?a + label_font_size ?a / 8)
                  (ustr ''middle'') (label_font_size ?a) (ustr ''middle'') (ustr ''Futura'')"
    by blast
  have "26 \<le> (27::nat) \<and> 27 < nat (n_rows ?a)"
    by (simp add: example_args_def)
  with rows have "chr (27 + 65) = Inr [27 + 65] \<and> 90 < (27::nat) + 65 \<and>
                 texts (self_svg self) ! 27 =
                   Text [27 + 65]
                     (margin ?a + left_padding ?a - 3 / 4 * well_separation ?a,
                      margin ?a + top_padding ?a + of_nat 27 * well_separation ?a +
                        label_font_size ?a / 8)
                     (ustr ''middle'') (label_font_size ?a) (ustr ''middle'') (ustr ''Futura'')"
    by blast
  then have r27: "chr 92 = Inr [92] \<and> texts (self_svg self) ! 27 =
        Text [92] (13 / 4, 289 / 2) (ustr ''middle'') 4 (ustr ''middle'') (ustr ''Futura'')"
    by (simp add: example_args_def)
  from r26 have r26': "texts (self_svg self) ! 26 =
        Text (ustr ''['') (13 / 4, 279 / 2) (ustr ''middle'') 4 (ustr ''middle'') (ustr ''Futura'')"
    by (simp add: example_args_def)
  from rows_past_Z [OF fb nb(1)] nb(2)
  have "PaperPlate_init named_colour empty_heap ?b = Inl ValueError" by blast
  with fa fb i r27 r26' show ?thesis by blast
qed

end
